theory Spec2Isabelle
  imports Main "HOL-Library.Word"
begin

section \<open>Data of the program and of the libraries it drives\<close>

text \<open>
  The program (package main: the dispatcher \<open>main\<close>, the \<open>push\<close> handler and the
  upload orchestration of \<open>push.go\<close>) owns no algorithm: it sequences calls into the Go
  standard library, the Azure SDK and the VHD utilities. Each such call is an event of
  the run; what the call answers is read from a \<open>world\<close>, so every theorem holds for
  every behaviour of the libraries.

  A Go \<open>error\<close> is modelled by its text; a nil error is the absence of a text.
\<close>

type_synonym err = string

type_synonym byte = "8 word"

text \<open>A Go \<open>map[string]string\<close>; \<open>None\<close> is the nil map.\<close>

type_synonym gomap = "(string \<times> string) list option"

text \<open>\<open>storage.AccountKey\<close> and \<open>storage.AccountListKeysResult\<close>: the fields the program
  reads are pointers, \<open>None\<close> is nil.\<close>

record AccountKey =
  KeyName :: "string option"
  Value :: "string option"

record AccountListKeysResult =
  Keys :: "AccountKey list option"

datatype OAuthConfig = OAuthConfig string string

datatype ServicePrincipalToken = ServicePrincipalToken OAuthConfig string string string

datatype Authorizer = NullAuthorizer | BearerAuthorizer ServicePrincipalToken

text \<open>\<open>resources.GroupsClient\<close> and \<open>storage.AccountsClient\<close>: a subscription and the
  authorizer attached to it.\<close>

record ArmClient =
  SubscriptionID :: string
  Authorizer :: Authorizer

text \<open>\<open>simpleStorage.Client\<close> (account name, account key) and the blob service made of it.\<close>

datatype Client = Client string string

datatype BlobStorageClient = BlobStorageClient Client

datatype ContainerAccessType = ContainerAccessTypePrivate

record BlobHeaders =
  ContentMD5 :: string

text \<open>The open disk stream: the path it was opened on and its logical size
  (\<open>diskStream.GetSize()\<close>, an int64).\<close>

record DiskStream =
  Source :: string
  Size :: "64 word"

definition GetSize :: "DiskStream \<Rightarrow> 64 word" where
  "GetSize d = Size d"

text \<open>\<open>uploadMetaData.MetaData\<close>: of the metadata of a local image the program reads the
  MD5 digest, a byte slice (\<open>None\<close> is the nil slice). The metadata that the library
  returns without an error and its \<open>FileMetaData\<close> are taken as values.\<close>

record FileMetaData =
  MD5Hash :: "byte list option"

record MetaData =
  FileMetaData :: FileMetaData

text \<open>Modelled from the spec: \<open>common.IndexRange\<close> belongs to the external VHD utilities
  and is not part of the sources. The spec describes a range as an offset and a length;
  both are int64.\<close>

record IndexRange =
  Offset :: "64 word"
  Length :: "64 word"

text \<open>Modelled from the spec: \<open>common.TotalRangeLength\<close> belongs to the external VHD
  utilities and is not part of the sources. The bytes already processed are the total
  length of the ranges uploaded before, 0 for a fresh upload.\<close>

definition TotalRangeLength :: "IndexRange list \<Rightarrow> 64 word" where
  "TotalRangeLength ranges = sum_list (map Length ranges)"

text \<open>\<open>upload.DiskUploadContext\<close>, with the fields the program sets. \<open>Parallelism\<close> is a
  Go \<open>int\<close>, 64 bits wide on the platforms the SDK supports.\<close>

record DiskUploadContext =
  VhdStream :: DiskStream
  UploadableRanges :: "IndexRange list"
  AlreadyProcessedBytes :: "64 word"
  BlobServiceClient :: BlobStorageClient
  ContainerName :: string
  BlobName :: string
  Parallelism :: "64 word"
  Resume :: bool
  MD5Hash_ctx :: "byte list option"

text \<open>What \<open>FlagSet.Parse\<close> does with its arguments: it exits the process itself (the
  flag sets here are \<open>ExitOnError\<close>) after calling the usage function of the flag set, it
  returns an error, or it returns nil; in the last two cases it has set the flags it saw
  (name and value, listed in the order of the arguments, a flag that is given twice being
  set twice) and kept the remaining arguments.\<close>

datatype ParseOutcome =
    ParseExits nat
  | ParseFails err "string list"
  | Parsed "(string \<times> string) list" "string list"

subsection \<open>Events\<close>

text \<open>One event for each call that leaves the program, with the arguments of the call.\<close>

datatype event =
    EvGetenv string
  | EvPrintf string "string list"
  | EvLogFatalf string "string list"
  | EvUsage
  | EvPrintDefaults string
  | EvCommandLineParse "string list"
  | EvFlagSetParse string "(string \<times> string \<times> string) list" "string list"
  | EvNewOAuthConfig string string
  | EvNewServicePrincipalToken OAuthConfig string string string
  | EvListKeys ArmClient string string
  | EvAbs string
  | EvValidateVhd string
  | EvValidateVhdSize string
  | EvCreateNewDiskStream string
  | EvDiskStreamClose DiskStream
  | EvNewBasicClient string string
  | EvCreateContainerIfNotExists BlobStorageClient string ContainerAccessType
  | EvNewMetaDataFromLocalVHD string
  | EvPutPageBlob BlobStorageClient string string "64 word" gomap
  | EvSetBlobMetadata BlobStorageClient string string gomap gomap
  | EvLocateUploadableRanges DiskStream "IndexRange list" "64 word"
  | EvDetectEmptyRanges DiskStream "IndexRange list"
  | EvUpload DiskUploadContext
  | EvSetBlobProperties BlobStorageClient string string BlobHeaders

subsection \<open>The world: what the libraries answer\<close>

record world =
  osArgs :: "string list"
  environ :: "string \<rightharpoonup> string"
  NumCPU :: "64 word"
  Base :: "string \<Rightarrow> string"
  EncodeToString :: "byte list \<Rightarrow> string"
  ActiveDirectoryEndpoint :: string
  ResourceManagerEndpoint :: string
  CommandLineParse :: "string list \<Rightarrow> ParseOutcome"
  FlagSetParse :: "string \<Rightarrow> (string \<times> string \<times> string) list \<Rightarrow> string list \<Rightarrow> ParseOutcome"
  NewOAuthConfig :: "string \<Rightarrow> string \<Rightarrow> err + OAuthConfig"
  NewServicePrincipalToken :: "OAuthConfig \<Rightarrow> string \<Rightarrow> string \<Rightarrow> string \<Rightarrow> err + ServicePrincipalToken"
  ListKeys :: "ArmClient \<Rightarrow> string \<Rightarrow> string \<Rightarrow> err + AccountListKeysResult"
  Abs :: "string \<Rightarrow> err + string"
  ValidateVhd :: "string \<Rightarrow> err option"
  ValidateVhdSize :: "string \<Rightarrow> err option"
  CreateNewDiskStream :: "string \<Rightarrow> err + DiskStream"
  NewBasicClient :: "string \<Rightarrow> string \<Rightarrow> Client \<times> err option"
  CreateContainerIfNotExists :: "BlobStorageClient \<Rightarrow> string \<Rightarrow> ContainerAccessType \<Rightarrow> err option"
  NewMetaDataFromLocalVHD :: "string \<Rightarrow> err + MetaData"
  PutPageBlob :: "BlobStorageClient \<Rightarrow> string \<Rightarrow> string \<Rightarrow> 64 word \<Rightarrow> gomap \<Rightarrow> err option"
  ToMap :: "MetaData \<Rightarrow> gomap \<times> err option"
  SetBlobMetadata :: "BlobStorageClient \<Rightarrow> string \<Rightarrow> string \<Rightarrow> gomap \<Rightarrow> gomap \<Rightarrow> err option"
  LocateUploadableRanges :: "DiskStream \<Rightarrow> IndexRange list \<Rightarrow> 64 word \<Rightarrow> err + IndexRange list"
  DetectEmptyRanges :: "DiskStream \<Rightarrow> IndexRange list \<Rightarrow> err + IndexRange list"
  Upload :: "DiskUploadContext \<Rightarrow> err option"
  SetBlobProperties :: "BlobStorageClient \<Rightarrow> string \<Rightarrow> string \<Rightarrow> BlobHeaders \<Rightarrow> err option"

text \<open>\<open>os.Getenv\<close>: the value of the variable, the empty string when it is not set.\<close>

definition Getenv :: "world \<Rightarrow> string \<Rightarrow> string" where
  "Getenv w k = (case environ w k of None \<Rightarrow> [] | Some v \<Rightarrow> v)"

subsection \<open>Package-level variables\<close>

record globals =
  groupsClient :: ArmClient
  simpleStorageClient :: Client
  accountsClient :: ArmClient

section \<open>Runs: events, globals and the way a run ends\<close>

text \<open>A run ends by returning a value, by \<open>os.Exit\<close> with a status (which runs no
  deferred call), or by a runtime panic.\<close>

datatype panic = NilDereference | IndexOutOfRange | SliceBoundsOutOfRange

datatype 'a res = Ok 'a | Exit nat | Panic panic

type_synonym 'a prog = "globals \<Rightarrow> event list \<times> globals \<times> 'a res"

definition ret :: "'a \<Rightarrow> 'a prog" where
  "ret a = (\<lambda>g. ([], g, Ok a))"

definition bind_prog :: "'a prog \<Rightarrow> ('a \<Rightarrow> 'b prog) \<Rightarrow> 'b prog" where
  "bind_prog m f = (\<lambda>g.
     case m g of
       (t, g', Ok a) \<Rightarrow> (case f a g' of (t', g'', r) \<Rightarrow> (t @ t', g'', r))
     | (t, g', Exit n) \<Rightarrow> (t, g', Exit n)
     | (t, g', Panic p) \<Rightarrow> (t, g', Panic p))"

text \<open>A call into a library: the event, and the answer of the world.\<close>

definition call :: "event \<Rightarrow> 'a \<Rightarrow> 'a prog" where
  "call e a = (\<lambda>g. ([e], g, Ok a))"

definition osExit :: "nat \<Rightarrow> 'a prog" where
  "osExit n = (\<lambda>g. ([], g, Exit n))"

text \<open>\<open>log.Fatalf\<close> prints the formatted message and calls \<open>os.Exit(1)\<close>.\<close>

definition logFatalf :: "string \<Rightarrow> string list \<Rightarrow> 'a prog" where
  "logFatalf fmt args = bind_prog (call (EvLogFatalf fmt args) ()) (\<lambda>_. osExit 1)"

definition runtime_panic :: "panic \<Rightarrow> 'a prog" where
  "runtime_panic p = (\<lambda>g. ([], g, Panic p))"

text \<open>\<open>*p\<close> and \<open>xs[0]\<close>, with the panics of the Go runtime.\<close>

definition deref :: "'a option \<Rightarrow> 'a prog" where
  "deref p = (case p of None \<Rightarrow> runtime_panic NilDereference | Some a \<Rightarrow> ret a)"

definition index0 :: "'a list \<Rightarrow> 'a prog" where
  "index0 xs = (case xs of [] \<Rightarrow> runtime_panic IndexOutOfRange | x # _ \<Rightarrow> ret x)"

text \<open>\<open>x, err := f(...); if err != nil { log.Fatalf(fmt, err) }\<close>\<close>

definition orFatalf :: "string \<Rightarrow> err + 'a \<Rightarrow> 'a prog" where
  "orFatalf fmt r = (case r of Inl e \<Rightarrow> logFatalf fmt [e] | Inr a \<Rightarrow> ret a)"

text \<open>\<open>if err != nil { log.Fatalf(fmt, err) }\<close>\<close>

definition fatalIf :: "string \<Rightarrow> err option \<Rightarrow> unit prog" where
  "fatalIf fmt e = (case e of Some x \<Rightarrow> logFatalf fmt [x] | None \<Rightarrow> ret ())"

text \<open>\<open>defer d\<close> followed by the rest of the function body: the deferred call runs when
  the body returns or panics, not when the process exits.\<close>

definition deferred :: "unit prog \<Rightarrow> 'a prog \<Rightarrow> 'a prog" where
  "deferred d body = (\<lambda>g.
     case body g of
       (t, g', Exit n) \<Rightarrow> (t, g', Exit n)
     | (t, g', r) \<Rightarrow> (case d g' of (t', g'', _) \<Rightarrow> (t @ t', g'', r)))"

definition get_globals :: "globals prog" where
  "get_globals = (\<lambda>g. ([], g, Ok g))"

definition set_globals :: "globals \<Rightarrow> unit prog" where
  "set_globals g' = (\<lambda>g. ([], g', Ok ()))"

definition events :: "event list \<times> globals \<times> 'a res \<Rightarrow> event list" where
  "events r = fst r"

definition outcome :: "event list \<times> globals \<times> 'a res \<Rightarrow> 'a res" where
  "outcome r = snd (snd r)"

section \<open>push.go\<close>



definition defaultStorageContainerName :: string where
  "defaultStorageContainerName = ''linuxkitcontainer''"

definition defaultStorageBlobName :: string where
  "defaultStorageBlobName = ''linuxkitimage.vhd''"


definition getEnvVarOrExit :: "world \<Rightarrow> string \<Rightarrow> string prog" where
  "getEnvVarOrExit w varName =
     bind_prog (call (EvGetenv varName) (Getenv w varName)) (\<lambda>val.
     bind_prog (if val = [] then logFatalf (''Missing environment variable %s'' @ [CHR 0x0A]) [varName]
                else ret ()) (\<lambda>_.
     ret val))"

definition ensureVHDSanity :: "world \<Rightarrow> string \<Rightarrow> unit prog" where
  "ensureVHDSanity w localVHDPath =
     bind_prog (call (EvValidateVhd localVHDPath) (ValidateVhd w localVHDPath)) (\<lambda>e.
     bind_prog (fatalIf ''Unable to validate VHD: %v'' e) (\<lambda>_.
     bind_prog (call (EvValidateVhdSize localVHDPath) (ValidateVhdSize w localVHDPath)) (\<lambda>e.
     fatalIf ''Unable to validate VHD size: %v'' e)))"

definition getLocalVHDMetaData :: "world \<Rightarrow> string \<Rightarrow> MetaData prog" where
  "getLocalVHDMetaData w localVHDPath =
     bind_prog (call (EvNewMetaDataFromLocalVHD localVHDPath) (NewMetaDataFromLocalVHD w localVHDPath)) (\<lambda>r.
     orFatalf ''Unable to get VHD metadata: %v'' r)"

definition setBlobMD5Hash :: "world \<Rightarrow> BlobStorageClient \<Rightarrow> string \<Rightarrow> string \<Rightarrow> MetaData \<Rightarrow> unit prog" where
  "setBlobMD5Hash w client containerName blobName vhdMetaData =
     (case MD5Hash (FileMetaData vhdMetaData) of
        Some h \<Rightarrow>
          (let blobHeaders = \<lparr>ContentMD5 = EncodeToString w h\<rparr> in
           bind_prog (call (EvSetBlobProperties client containerName blobName blobHeaders)
                        (SetBlobProperties w client containerName blobName blobHeaders)) (\<lambda>e.
           fatalIf ''Unable to set blob properties: %v'' e))
      | None \<Rightarrow> ret ())"

definition uploadVMImage :: "world \<Rightarrow> string \<Rightarrow> string \<Rightarrow> string \<Rightarrow> unit prog" where
  "uploadVMImage w resourceGroupName accountName imagePath =
    (let PageBlobPageSize = (2 * 1024 * 1024 :: 64 word);
         parallelism = 8 * NumCPU w in
     bind_prog get_globals (\<lambda>g.
     bind_prog (call (EvListKeys (accountsClient g) resourceGroupName accountName)
                  (ListKeys w (accountsClient g) resourceGroupName accountName)) (\<lambda>r.
     bind_prog (orFatalf ''Unable to retrieve storage account key: %v'' r) (\<lambda>accountKeys.
     bind_prog (deref (Keys accountKeys)) (\<lambda>keys.
     bind_prog (call (EvAbs imagePath) (Abs w imagePath)) (\<lambda>r.
     bind_prog (orFatalf ''Unable to get absolute path: %v'' r) (\<lambda>absolutePath.
     bind_prog (ensureVHDSanity w absolutePath) (\<lambda>_.
     bind_prog (call (EvCreateNewDiskStream absolutePath) (CreateNewDiskStream w absolutePath)) (\<lambda>r.
     bind_prog (orFatalf ''Unable to create disk stream for VHD: %v'' r) (\<lambda>diskStream.
     deferred (call (EvDiskStreamClose diskStream) ())
      (bind_prog (index0 keys) (\<lambda>key0.
       bind_prog (deref (Value key0)) (\<lambda>keyValue.
       bind_prog (call (EvNewBasicClient accountName keyValue) (NewBasicClient w accountName keyValue)) (\<lambda>(c, e).
       bind_prog get_globals (\<lambda>g.
       bind_prog (set_globals (g\<lparr>simpleStorageClient := c\<rparr>)) (\<lambda>_.
       bind_prog (fatalIf ''Unable to create simple storage client: %v'' e) (\<lambda>_.
       bind_prog (ret (BlobStorageClient c)) (\<lambda>blobServiceClient.
       bind_prog (call (EvCreateContainerIfNotExists blobServiceClient defaultStorageContainerName ContainerAccessTypePrivate)
                    (CreateContainerIfNotExists w blobServiceClient defaultStorageContainerName ContainerAccessTypePrivate)) (\<lambda>e.
       bind_prog (fatalIf ''Unable to create or retrieve container: %v'' e) (\<lambda>_.
       bind_prog (getLocalVHDMetaData w absolutePath) (\<lambda>localMetaData.
       bind_prog (call (EvPutPageBlob blobServiceClient defaultStorageContainerName defaultStorageBlobName (GetSize diskStream) None)
                    (PutPageBlob w blobServiceClient defaultStorageContainerName defaultStorageBlobName (GetSize diskStream) None)) (\<lambda>e.
       bind_prog (fatalIf ''Unable to create VHD blob: %v'' e) (\<lambda>_.
       bind_prog (ret (fst (ToMap w localMetaData))) (\<lambda>m.
       bind_prog (call (EvSetBlobMetadata blobServiceClient defaultStorageContainerName defaultStorageBlobName m (Some []))
                    (SetBlobMetadata w blobServiceClient defaultStorageContainerName defaultStorageBlobName m (Some []))) (\<lambda>e.
       bind_prog (fatalIf ''Unable to set blob metatada: %v'' e) (\<lambda>_.
       bind_prog (ret []) (\<lambda>rangesToSkip.
       bind_prog (call (EvLocateUploadableRanges diskStream rangesToSkip PageBlobPageSize)
                    (LocateUploadableRanges w diskStream rangesToSkip PageBlobPageSize)) (\<lambda>r.
       bind_prog (orFatalf ''Unable to locate uploadable ranges: %v'' r) (\<lambda>uploadableRanges.
       bind_prog (call (EvDetectEmptyRanges diskStream uploadableRanges)
                    (DetectEmptyRanges w diskStream uploadableRanges)) (\<lambda>r.
       bind_prog (orFatalf ''Unable to detect empty blob ranges: %v'' r) (\<lambda>uploadableRanges.
       bind_prog (ret \<lparr>VhdStream = diskStream,
                        UploadableRanges = uploadableRanges,
                        AlreadyProcessedBytes = TotalRangeLength rangesToSkip,
                        BlobServiceClient = blobServiceClient,
                        ContainerName = defaultStorageContainerName,
                        BlobName = defaultStorageBlobName,
                        Parallelism = parallelism,
                        Resume = False,
                        MD5Hash_ctx = MD5Hash (FileMetaData localMetaData)\<rparr>) (\<lambda>cxt.
       bind_prog (call (EvUpload cxt) (Upload w cxt)) (\<lambda>e.
       bind_prog (fatalIf ''Unable to upload VHD: %v'' e) (\<lambda>_.
       setBlobMD5Hash w blobServiceClient defaultStorageContainerName defaultStorageBlobName
         localMetaData))))))))))))))))))))))))))))))))))"


section \<open>The other revision of push.go: \<open>push\<close> with its flag set\<close>





section \<open>The dispatcher\<close>


section \<open>Reading a run\<close>

text \<open>\<open>preceded_by P Q es\<close>: every event of \<open>es\<close> that satisfies \<open>Q\<close> has an event that
  satisfies \<open>P\<close> strictly before it.\<close>

fun preceded_by :: "(event \<Rightarrow> bool) \<Rightarrow> (event \<Rightarrow> bool) \<Rightarrow> event list \<Rightarrow> bool" where
  "preceded_by P Q [] = True"
| "preceded_by P Q (e # es) = (\<not> Q e \<and> (P e \<or> preceded_by P Q es))"

text \<open>Kinds of events.\<close>

fun is_ValidateVhd :: "event \<Rightarrow> bool" where
  "is_ValidateVhd (EvValidateVhd _) = True"
| "is_ValidateVhd _ = False"

fun is_ValidateVhdSize :: "event \<Rightarrow> bool" where
  "is_ValidateVhdSize (EvValidateVhdSize _) = True"
| "is_ValidateVhdSize _ = False"

fun is_PutPageBlob :: "event \<Rightarrow> bool" where
  "is_PutPageBlob (EvPutPageBlob _ _ _ _ _) = True"
| "is_PutPageBlob _ = False"

fun is_SetBlobMetadata :: "event \<Rightarrow> bool" where
  "is_SetBlobMetadata (EvSetBlobMetadata _ _ _ _ _) = True"
| "is_SetBlobMetadata _ = False"

fun is_LocateUploadableRanges :: "event \<Rightarrow> bool" where
  "is_LocateUploadableRanges (EvLocateUploadableRanges _ _ _) = True"
| "is_LocateUploadableRanges _ = False"

fun is_Upload :: "event \<Rightarrow> bool" where
  "is_Upload (EvUpload _) = True"
| "is_Upload _ = False"

fun is_SetBlobProperties :: "event \<Rightarrow> bool" where
  "is_SetBlobProperties (EvSetBlobProperties _ _ _ _) = True"
| "is_SetBlobProperties _ = False"

text \<open>Calls to the blob service of the storage account: the container, the page blob,
  its metadata, its pages and its properties.\<close>

fun blob_service_call :: "event \<Rightarrow> bool" where
  "blob_service_call (EvCreateContainerIfNotExists _ _ _) = True"
| "blob_service_call (EvPutPageBlob _ _ _ _ _) = True"
| "blob_service_call (EvSetBlobMetadata _ _ _ _ _) = True"
| "blob_service_call (EvUpload _) = True"
| "blob_service_call (EvSetBlobProperties _ _ _ _) = True"
| "blob_service_call _ = False"

text \<open>Calls that reach a remote service: the blob service, the management API that
  lists the keys of the storage account, and the token of the identity service.\<close>

fun network_call :: "event \<Rightarrow> bool" where
  "network_call (EvListKeys _ _ _) = True"
| "network_call (EvNewServicePrincipalToken _ _ _ _) = True"
| "network_call e = blob_service_call e"



section \<open>Sample worlds\<close>

text \<open>A world in which every call succeeds, on a machine with 4 processing units. The
  digest is the MD5 of the empty input and \<open>EncodeToString\<close> answers its base64 text.\<close>

definition sample_digest :: "byte list" where
  "sample_digest = [0xd4, 0x1d, 0x8c, 0xd9, 0x8f, 0x00, 0xb2, 0x04,
                    0xe9, 0x80, 0x09, 0x98, 0xec, 0xf8, 0x42, 0x7e]"

definition sample_stream :: DiskStream where
  "sample_stream = \<lparr>Source = ''/images/image.vhd'', Size = 10485760\<rparr>"

definition sample_metadata :: MetaData where
  "sample_metadata = \<lparr>FileMetaData = \<lparr>MD5Hash = Some sample_digest\<rparr>\<rparr>"

definition sample_ranges :: "IndexRange list" where
  "sample_ranges = [\<lparr>Offset = 0, Length = 2097152\<rparr>, \<lparr>Offset = 2097152, Length = 2097152\<rparr>]"

definition sample_world :: world where
  "sample_world =
     \<lparr>osArgs = [''linuxkit-azure'', ''push'', ''-resourceGroupName'', ''rg'', ''image.vhd''],
      environ = [''AZURE_TENANT_ID'' \<mapsto> ''tenant'', ''AZURE_CLIENT_ID'' \<mapsto> []],
      NumCPU = 4,
      Base = (\<lambda>p. p),
      EncodeToString = (\<lambda>b. ''1B2M2Y8AsgTpgAmY7PhCfg==''),
      ActiveDirectoryEndpoint = ''https://login.microsoftonline.com/'',
      ResourceManagerEndpoint = ''https://management.azure.com/'',
      CommandLineParse = (\<lambda>a. Parsed [] a),
      FlagSetParse = (\<lambda>n d a. Parsed [(''resourceGroupName'', ''rg'')] [''image.vhd'']),
      NewOAuthConfig = (\<lambda>e t. Inr (OAuthConfig e t)),
      NewServicePrincipalToken = (\<lambda>c i s r. Inr (ServicePrincipalToken c i s r)),
      ListKeys = (\<lambda>c r a. Inr \<lparr>Keys = Some [\<lparr>KeyName = Some ''key1'', Value = Some ''c2VjcmV0''\<rparr>]\<rparr>),
      Abs = (\<lambda>p. Inr (''/images/'' @ p)),
      ValidateVhd = (\<lambda>p. None),
      ValidateVhdSize = (\<lambda>p. None),
      CreateNewDiskStream = (\<lambda>p. Inr sample_stream),
      NewBasicClient = (\<lambda>a k. (Client a k, None)),
      CreateContainerIfNotExists = (\<lambda>c n t. None),
      NewMetaDataFromLocalVHD = (\<lambda>p. Inr sample_metadata),
      PutPageBlob = (\<lambda>c n b s h. None),
      ToMap = (\<lambda>m. (Some [(''diskmetadata'', ''{}'')], None)),
      SetBlobMetadata = (\<lambda>c n b m h. None),
      LocateUploadableRanges = (\<lambda>d s p. Inr sample_ranges),
      DetectEmptyRanges = (\<lambda>d r. Inr r),
      Upload = (\<lambda>c. None),
      SetBlobProperties = (\<lambda>c n b h. None)\<rparr>"

definition sample_globals :: globals where
  "sample_globals =
     \<lparr>groupsClient = \<lparr>SubscriptionID = ''sub'', Authorizer = NullAuthorizer\<rparr>,
      simpleStorageClient = Client [] [],
      accountsClient = \<lparr>SubscriptionID = ''sub'', Authorizer = NullAuthorizer\<rparr>\<rparr>"

definition sample_client :: BlobStorageClient where
  "sample_client = BlobStorageClient (Client ''linuxkit'' ''c2VjcmV0'')"

definition sample_context :: DiskUploadContext where
  "sample_context =
     \<lparr>VhdStream = sample_stream,
      UploadableRanges = sample_ranges,
      AlreadyProcessedBytes = 0,
      BlobServiceClient = sample_client,
      ContainerName = ''linuxkitcontainer'',
      BlobName = ''linuxkitimage.vhd'',
      Parallelism = 32,
      Resume = False,
      MD5Hash_ctx = Some sample_digest\<rparr>"

text \<open>The events of the run of \<open>uploadVMImage\<close> in the sample world.\<close>

definition sample_run :: "event list" where
  "sample_run =
     [EvListKeys \<lparr>SubscriptionID = ''sub'', Authorizer = NullAuthorizer\<rparr> ''rg'' ''linuxkit'',
      EvAbs ''image.vhd'',
      EvValidateVhd ''/images/image.vhd'',
      EvValidateVhdSize ''/images/image.vhd'',
      EvCreateNewDiskStream ''/images/image.vhd'',
      EvNewBasicClient ''linuxkit'' ''c2VjcmV0'',
      EvCreateContainerIfNotExists sample_client ''linuxkitcontainer'' ContainerAccessTypePrivate,
      EvNewMetaDataFromLocalVHD ''/images/image.vhd'',
      EvPutPageBlob sample_client ''linuxkitcontainer'' ''linuxkitimage.vhd'' 10485760 None,
      EvSetBlobMetadata sample_client ''linuxkitcontainer'' ''linuxkitimage.vhd''
        (Some [(''diskmetadata'', ''{}'')]) (Some []),
      EvLocateUploadableRanges sample_stream [] 2097152,
      EvDetectEmptyRanges sample_stream sample_ranges,
      EvUpload sample_context,
      EvSetBlobProperties sample_client ''linuxkitcontainer'' ''linuxkitimage.vhd''
        \<lparr>ContentMD5 = ''1B2M2Y8AsgTpgAmY7PhCfg==''\<rparr>,
      EvDiskStreamClose sample_stream]"

text \<open>The same world with an image whose structure is not valid.\<close>

definition invalid_image_world :: world where
  "invalid_image_world = sample_world\<lparr>ValidateVhd := (\<lambda>p. Some ''invalid footer'')\<rparr>"

text \<open>The same world with an image that is valid and too large.\<close>

definition oversized_image_world :: world where
  "oversized_image_world = sample_world\<lparr>ValidateVhdSize := (\<lambda>p. Some ''VHD size is too large'')\<rparr>"

text \<open>Worlds in which \<open>ListKeys\<close> succeeds and yields no key: a nil \<open>Keys\<close> pointer, an
  empty list of keys, and an empty list of keys for an image that is not valid.\<close>

definition nil_keys_world :: world where
  "nil_keys_world = sample_world\<lparr>ListKeys := (\<lambda>c r a. Inr \<lparr>Keys = None\<rparr>)\<rparr>"

definition no_keys_world :: world where
  "no_keys_world = sample_world\<lparr>ListKeys := (\<lambda>c r a. Inr \<lparr>Keys = Some []\<rparr>)\<rparr>"

definition no_keys_invalid_image_world :: world where
  "no_keys_invalid_image_world = no_keys_world\<lparr>ValidateVhd := (\<lambda>p. Some ''invalid footer'')\<rparr>"



text \<open>A world in which the conversion of the metadata to a map fails and yields the nil
  map.\<close>

definition failing_ToMap_world :: world where
  "failing_ToMap_world = sample_world\<lparr>ToMap := (\<lambda>m. (None, Some ''json: unsupported value''))\<rparr>"

section \<open>Laws of runs\<close>

text \<open>How the sequencing of a run computes, one law for each kind of step.\<close>

lemma bind_call [simp]:
  "bind_prog (call e a) f g = apfst ((#) e) (f a g)"
  by (simp add: bind_prog_def call_def split: prod.splits)

lemma bind_ret [simp]: "bind_prog (ret a) f g = f a g"
  by (simp add: bind_prog_def ret_def split: prod.splits)

lemma bind_get_globals [simp]: "bind_prog get_globals f g = f g g"
  by (simp add: bind_prog_def get_globals_def split: prod.splits)

lemma bind_set_globals [simp]: "bind_prog (set_globals g') f g = f () g'"
  by (simp add: bind_prog_def set_globals_def split: prod.splits)

lemma logFatalf_run [simp]: "logFatalf fmt args g = ([EvLogFatalf fmt args], g, Exit 1)"
  by (simp add: logFatalf_def bind_prog_def call_def osExit_def)

lemma bind_logFatalf [simp]: "bind_prog (logFatalf fmt args) f g = ([EvLogFatalf fmt args], g, Exit 1)"
  by (simp add: logFatalf_def bind_prog_def call_def osExit_def)

lemma bind_orFatalf [simp]:
  "bind_prog (orFatalf fmt r) f g =
     (case r of Inl e \<Rightarrow> ([EvLogFatalf fmt [e]], g, Exit 1) | Inr a \<Rightarrow> f a g)"
  by (simp add: orFatalf_def split: sum.splits)

lemma orFatalf_run [simp]:
  "orFatalf fmt r g =
     (case r of Inl e \<Rightarrow> ([EvLogFatalf fmt [e]], g, Exit 1) | Inr a \<Rightarrow> ([], g, Ok a))"
  by (simp add: orFatalf_def ret_def split: sum.splits)

lemma bind_fatalIf [simp]:
  "bind_prog (fatalIf fmt e) f g =
     (case e of Some x \<Rightarrow> ([EvLogFatalf fmt [x]], g, Exit 1) | None \<Rightarrow> f () g)"
  by (simp add: fatalIf_def split: option.splits)

lemma fatalIf_run [simp]:
  "fatalIf fmt e g =
     (case e of Some x \<Rightarrow> ([EvLogFatalf fmt [x]], g, Exit 1) | None \<Rightarrow> ([], g, Ok ()))"
  by (simp add: fatalIf_def ret_def split: option.splits)

lemma bind_deref [simp]:
  "bind_prog (deref p) f g = (case p of None \<Rightarrow> ([], g, Panic NilDereference) | Some a \<Rightarrow> f a g)"
  by (simp add: deref_def runtime_panic_def bind_prog_def ret_def split: option.splits prod.splits)

lemma bind_index0 [simp]:
  "bind_prog (index0 xs) f g = (case xs of [] \<Rightarrow> ([], g, Panic IndexOutOfRange) | x # _ \<Rightarrow> f x g)"
  by (simp add: index0_def runtime_panic_def bind_prog_def ret_def split: list.splits prod.splits)

lemma bind_osExit [simp]: "bind_prog (osExit n) f g = ([], g, Exit n)"
  by (simp add: bind_prog_def osExit_def)

lemma bind_runtime_panic [simp]: "bind_prog (runtime_panic p) f g = ([], g, Panic p)"
  by (simp add: bind_prog_def runtime_panic_def)

lemma osExit_run [simp]: "osExit n g = ([], g, Exit n)"
  by (simp add: osExit_def)

lemma call_run [simp]: "call e a g = ([e], g, Ok a)"
  by (simp add: call_def)

lemma ret_run [simp]: "ret a g = ([], g, Ok a)"
  by (simp add: ret_def)

lemma bind_bind [simp]: "bind_prog (bind_prog m f) h = bind_prog m (\<lambda>a. bind_prog (f a) h)"
  by (auto simp: bind_prog_def fun_eq_iff split: prod.splits res.splits)



lemmas upload_defs = uploadVMImage_def ensureVHDSanity_def getLocalVHDMetaData_def
  setBlobMD5Hash_def deferred_def Let_def

lemmas run_splits = sum.splits option.splits list.splits prod.splits


text \<open>\<open>preceded_by\<close> in terms of positions in the run.\<close>

lemma preceded_by_iff:
  "preceded_by P Q es \<longleftrightarrow> (\<forall>j < length es. Q (es ! j) \<longrightarrow> (\<exists>i < j. P (es ! i)))"
proof (induction es)
  case Nil
  show ?case by simp
next
  case (Cons e es)
  show ?case
  proof (cases "Q e")
    case True
    then show ?thesis by auto
  next
    case nQ: False
    show ?thesis
    proof (cases "P e")
      case True
      with nQ show ?thesis by (auto simp: nth_Cons split: nat.splits)
    next
      case nP: False
      have "(\<forall>j < length (e # es). Q ((e # es) ! j) \<longrightarrow> (\<exists>i < j. P ((e # es) ! i)))
            \<longleftrightarrow> (\<forall>j < length es. Q (es ! j) \<longrightarrow> (\<exists>i < j. P (es ! i)))" (is "?L \<longleftrightarrow> ?R")
      proof
        assume L: ?L
        show ?R
        proof (intro allI impI)
          fix j assume j: "j < length es" and q: "Q (es ! j)"
          from L j q have "\<exists>i < Suc j. P ((e # es) ! i)" by force
          then obtain i where i: "i < Suc j" "P ((e # es) ! i)" by blast
          with nP obtain i' where "i = Suc i'" by (cases i) auto
          with i show "\<exists>i < j. P (es ! i)" by auto
        qed
      next
        assume R: ?R
        show ?L
        proof (intro allI impI)
          fix j assume j: "j < length (e # es)" and q: "Q ((e # es) ! j)"
          with nQ obtain j' where j': "j = Suc j'" by (cases j) auto
          with j q R obtain i where "i < j'" "P (es ! i)" by auto
          with j' show "\<exists>i < j. P ((e # es) ! i)" by (intro exI[of _ "Suc i"]) auto
        qed
      qed
      with nQ nP Cons.IH show ?thesis by simp
    qed
  qed
qed

text \<open>Multiplying a small non-negative Go \<open>int\<close> by 8 does not wrap.\<close>

lemma sint_times_8:
  fixes x :: "64 word"
  assumes "0 \<le> sint x" and "sint x < 2 ^ 60"
  shows "sint (8 * x) = 8 * sint x"
proof -
  have "sint (8 * x) = signed_take_bit 63 (sint (8 :: 64 word) * sint x)"
    by (simp add: sint_word_ariths)
  also have "sint (8 :: 64 word) = 8" by simp
  also have "signed_take_bit 63 (8 * sint x) = 8 * sint x"
    using assms by (intro signed_take_bit_int_eq_self) auto
  finally show ?thesis .
qed

text \<open>The run of \<open>uploadVMImage\<close> in the sample world.\<close>

lemma sample_run_eq:
  "uploadVMImage sample_world ''rg'' ''linuxkit'' ''image.vhd'' sample_globals =
     (sample_run, sample_globals\<lparr>simpleStorageClient := Client ''linuxkit'' ''c2VjcmV0''\<rparr>, Ok ())"
  by (simp add: upload_defs sample_world_def sample_globals_def sample_run_def sample_context_def
      sample_client_def sample_stream_def sample_metadata_def sample_ranges_def GetSize_def
      defaultStorageContainerName_def defaultStorageBlobName_def TotalRangeLength_def)


text \<open>The run of \<open>uploadVMImage\<close> when the conversion of the metadata fails.\<close>

lemma failing_ToMap_run:
  "uploadVMImage failing_ToMap_world ''rg'' ''linuxkit'' ''image.vhd'' sample_globals =
     (take 9 sample_run
        @ [EvSetBlobMetadata sample_client defaultStorageContainerName defaultStorageBlobName
             None (Some [])]
        @ drop 10 sample_run,
      sample_globals\<lparr>simpleStorageClient := Client ''linuxkit'' ''c2VjcmV0''\<rparr>, Ok ())"
  by (simp add: upload_defs failing_ToMap_world_def sample_world_def sample_globals_def sample_run_def
      sample_context_def sample_client_def sample_stream_def sample_metadata_def sample_ranges_def
      GetSize_def defaultStorageContainerName_def defaultStorageBlobName_def TotalRangeLength_def)

text \<open>What the sample world answers to the calls of \<open>uploadVMImage\<close>.\<close>

lemma sample_answers:
  "ListKeys sample_world (accountsClient sample_globals) ''rg'' ''linuxkit''
     = Inr \<lparr>Keys = Some [\<lparr>KeyName = Some ''key1'', Value = Some ''c2VjcmV0''\<rparr>]\<rparr>"
  "Keys \<lparr>Keys = Some [\<lparr>KeyName = Some ''key1'', Value = Some ''c2VjcmV0''\<rparr>]\<rparr>
     = Some (\<lparr>KeyName = Some ''key1'', Value = Some ''c2VjcmV0''\<rparr> # [])"
  "Value \<lparr>KeyName = Some ''key1'', Value = Some ''c2VjcmV0''\<rparr> = Some ''c2VjcmV0''"
  "Abs sample_world ''image.vhd'' = Inr ''/images/image.vhd''"
  "ValidateVhd sample_world ''/images/image.vhd'' = None"
  "ValidateVhdSize sample_world ''/images/image.vhd'' = None"
  "CreateNewDiskStream sample_world ''/images/image.vhd'' = Inr sample_stream"
  "NewBasicClient sample_world ''linuxkit'' ''c2VjcmV0'' = (Client ''linuxkit'' ''c2VjcmV0'', None)"
  "CreateContainerIfNotExists sample_world (BlobStorageClient (Client ''linuxkit'' ''c2VjcmV0''))
     defaultStorageContainerName ContainerAccessTypePrivate = None"
  "NewMetaDataFromLocalVHD sample_world ''/images/image.vhd'' = Inr sample_metadata"
  "PutPageBlob sample_world (BlobStorageClient (Client ''linuxkit'' ''c2VjcmV0''))
     defaultStorageContainerName defaultStorageBlobName (GetSize sample_stream) None = None"
  "SetBlobMetadata sample_world (BlobStorageClient (Client ''linuxkit'' ''c2VjcmV0''))
     defaultStorageContainerName defaultStorageBlobName (fst (ToMap sample_world sample_metadata))
     (Some []) = None"
  "LocateUploadableRanges sample_world sample_stream [] 2097152 = Inr sample_ranges"
  "DetectEmptyRanges sample_world sample_stream sample_ranges = Inr sample_ranges"
  by (simp_all add: sample_world_def)

lemma sample_upload:
  "EvUpload sample_context
     \<in> set (events (uploadVMImage sample_world ''rg'' ''linuxkit'' ''image.vhd'' sample_globals))"
  by (simp add: sample_run_eq events_def sample_run_def)

section \<open>The push handler\<close>




section \<open>Validation comes before the blob service\<close>

lemma invalid_image_run:
  "uploadVMImage invalid_image_world ''rg'' ''linuxkit'' ''image.vhd'' sample_globals =
     ([EvListKeys \<lparr>SubscriptionID = ''sub'', Authorizer = NullAuthorizer\<rparr> ''rg'' ''linuxkit'',
       EvAbs ''image.vhd'', EvValidateVhd ''/images/image.vhd'',
       EvLogFatalf ''Unable to validate VHD: %v'' [''invalid footer'']], sample_globals, Exit 1)"
  by (simp add: upload_defs invalid_image_world_def sample_world_def sample_globals_def)

text \<open>C2, as stated, fails: validation does not come before every network call. For an
  image that is not valid, the run has already asked the management API for the keys of
  the storage account (\<open>ListKeys\<close>, the first event) when \<open>ValidateVhd\<close> rejects the image.\<close>

theorem validation_before_network_counterexample:
  "uploadVMImage invalid_image_world ''rg'' ''linuxkit'' ''image.vhd'' sample_globals =
     ([EvListKeys \<lparr>SubscriptionID = ''sub'', Authorizer = NullAuthorizer\<rparr> ''rg'' ''linuxkit'',
       EvAbs ''image.vhd'', EvValidateVhd ''/images/image.vhd'',
       EvLogFatalf ''Unable to validate VHD: %v'' [''invalid footer'']], sample_globals, Exit 1)
   \<and> network_call (EvListKeys \<lparr>SubscriptionID = ''sub'', Authorizer = NullAuthorizer\<rparr> ''rg'' ''linuxkit'')
   \<and> \<not> preceded_by is_ValidateVhd network_call
         (events (uploadVMImage invalid_image_world ''rg'' ''linuxkit'' ''image.vhd'' sample_globals))"
  by (simp add: invalid_image_run events_def)

text \<open>C2, amended: whenever \<open>uploadVMImage\<close> runs, the structural check comes before the
  size check and the size check before every call to the blob service (so before the
  container and the page blob are created); a call to the blob service happens only for
  an image that passed both checks; the only network call that is not preceded by the
  validation is \<open>ListKeys\<close>; and for an image that fails a check no call to the blob
  service is made and the run does not return: each failed check is fatal (message, exit
  status 1).\<close>

theorem validation_before_blob_service:
  "preceded_by is_ValidateVhd is_ValidateVhdSize (events (uploadVMImage w rg an ip g))
   \<and> preceded_by is_ValidateVhdSize blob_service_call (events (uploadVMImage w rg an ip g))
   \<and> (\<forall>e \<in> set (events (uploadVMImage w rg an ip g)). blob_service_call e \<longrightarrow>
         (\<exists>p. Abs w ip = Inr p \<and> ValidateVhd w p = None \<and> ValidateVhdSize w p = None
              \<and> EvValidateVhd p \<in> set (events (uploadVMImage w rg an ip g))
              \<and> EvValidateVhdSize p \<in> set (events (uploadVMImage w rg an ip g))))
   \<and> (\<forall>e \<in> set (events (uploadVMImage w rg an ip g)).
         network_call e \<and> \<not> blob_service_call e \<longrightarrow> e = EvListKeys (accountsClient g) rg an)
   \<and> (Abs w ip = Inr p \<longrightarrow> ValidateVhd w p \<noteq> None \<or> ValidateVhdSize w p \<noteq> None \<longrightarrow>
         (\<forall>e \<in> set (events (uploadVMImage w rg an ip g)). \<not> blob_service_call e)
         \<and> outcome (uploadVMImage w rg an ip g) \<noteq> Ok ())
   \<and> (ListKeys w (accountsClient g) rg an = Inr ak \<longrightarrow> Keys ak = Some ks \<longrightarrow> Abs w ip = Inr p \<longrightarrow>
         ValidateVhd w p = Some e1 \<longrightarrow>
         uploadVMImage w rg an ip g =
           ([EvListKeys (accountsClient g) rg an, EvAbs ip, EvValidateVhd p,
             EvLogFatalf ''Unable to validate VHD: %v'' [e1]], g, Exit 1))
   \<and> (ListKeys w (accountsClient g) rg an = Inr ak \<longrightarrow> Keys ak = Some ks \<longrightarrow> Abs w ip = Inr p \<longrightarrow>
         ValidateVhd w p = None \<longrightarrow> ValidateVhdSize w p = Some e2 \<longrightarrow>
         uploadVMImage w rg an ip g =
           ([EvListKeys (accountsClient g) rg an, EvAbs ip, EvValidateVhd p, EvValidateVhdSize p,
             EvLogFatalf ''Unable to validate VHD size: %v'' [e2]], g, Exit 1))"
proof (intro conjI)
  show "preceded_by is_ValidateVhd is_ValidateVhdSize (events (uploadVMImage w rg an ip g))"
    by (simp add: upload_defs events_def split: run_splits)
  show "preceded_by is_ValidateVhdSize blob_service_call (events (uploadVMImage w rg an ip g))"
    by (simp add: upload_defs events_def split: run_splits)
  show "\<forall>e \<in> set (events (uploadVMImage w rg an ip g)). blob_service_call e \<longrightarrow>
         (\<exists>p. Abs w ip = Inr p \<and> ValidateVhd w p = None \<and> ValidateVhdSize w p = None
              \<and> EvValidateVhd p \<in> set (events (uploadVMImage w rg an ip g))
              \<and> EvValidateVhdSize p \<in> set (events (uploadVMImage w rg an ip g)))"
    by (simp add: upload_defs events_def split: run_splits)
  show "\<forall>e \<in> set (events (uploadVMImage w rg an ip g)).
         network_call e \<and> \<not> blob_service_call e \<longrightarrow> e = EvListKeys (accountsClient g) rg an"
    by (simp add: upload_defs events_def split: run_splits)
  show "Abs w ip = Inr p \<longrightarrow> ValidateVhd w p \<noteq> None \<or> ValidateVhdSize w p \<noteq> None \<longrightarrow>
         (\<forall>e \<in> set (events (uploadVMImage w rg an ip g)). \<not> blob_service_call e)
         \<and> outcome (uploadVMImage w rg an ip g) \<noteq> Ok ()"
    by (auto simp add: upload_defs events_def outcome_def split: run_splits)
  show "ListKeys w (accountsClient g) rg an = Inr ak \<longrightarrow> Keys ak = Some ks \<longrightarrow> Abs w ip = Inr p \<longrightarrow>
         ValidateVhd w p = Some e1 \<longrightarrow>
         uploadVMImage w rg an ip g =
           ([EvListKeys (accountsClient g) rg an, EvAbs ip, EvValidateVhd p,
             EvLogFatalf ''Unable to validate VHD: %v'' [e1]], g, Exit 1)"
    by (simp add: upload_defs)
  show "ListKeys w (accountsClient g) rg an = Inr ak \<longrightarrow> Keys ak = Some ks \<longrightarrow> Abs w ip = Inr p \<longrightarrow>
         ValidateVhd w p = None \<longrightarrow> ValidateVhdSize w p = Some e2 \<longrightarrow>
         uploadVMImage w rg an ip g =
           ([EvListKeys (accountsClient g) rg an, EvAbs ip, EvValidateVhd p, EvValidateVhdSize p,
             EvLogFatalf ''Unable to validate VHD size: %v'' [e2]], g, Exit 1)"
    by (simp add: upload_defs)
qed

text \<open>The amended C2 at an image that is not valid and at an image that is too large (a
  fatal exit and no call to the blob service), and at the sample image (both checks, in
  order, before the container is created).\<close>

theorem validation_before_blob_service_witness:
  "Abs invalid_image_world ''image.vhd'' = Inr ''/images/image.vhd''
   \<and> ValidateVhd invalid_image_world ''/images/image.vhd'' = Some ''invalid footer''
   \<and> uploadVMImage invalid_image_world ''rg'' ''linuxkit'' ''image.vhd'' sample_globals =
        ([EvListKeys (accountsClient sample_globals) ''rg'' ''linuxkit'', EvAbs ''image.vhd'',
          EvValidateVhd ''/images/image.vhd'',
          EvLogFatalf ''Unable to validate VHD: %v'' [''invalid footer'']], sample_globals, Exit 1)
   \<and> outcome (uploadVMImage invalid_image_world ''rg'' ''linuxkit'' ''image.vhd'' sample_globals) \<noteq> Ok ()
   \<and> list_all (\<lambda>e. \<not> blob_service_call e)
        (events (uploadVMImage invalid_image_world ''rg'' ''linuxkit'' ''image.vhd'' sample_globals))
   \<and> ValidateVhd oversized_image_world ''/images/image.vhd'' = None
   \<and> ValidateVhdSize oversized_image_world ''/images/image.vhd'' = Some ''VHD size is too large''
   \<and> uploadVMImage oversized_image_world ''rg'' ''linuxkit'' ''image.vhd'' sample_globals =
        ([EvListKeys (accountsClient sample_globals) ''rg'' ''linuxkit'', EvAbs ''image.vhd'',
          EvValidateVhd ''/images/image.vhd'', EvValidateVhdSize ''/images/image.vhd'',
          EvLogFatalf ''Unable to validate VHD size: %v'' [''VHD size is too large'']],
         sample_globals, Exit 1)
   \<and> EvCreateContainerIfNotExists sample_client ''linuxkitcontainer'' ContainerAccessTypePrivate
        \<in> set (events (uploadVMImage sample_world ''rg'' ''linuxkit'' ''image.vhd'' sample_globals))
   \<and> (\<exists>p. Abs sample_world ''image.vhd'' = Inr p \<and> ValidateVhd sample_world p = None
          \<and> ValidateVhdSize sample_world p = None
          \<and> EvValidateVhd p
               \<in> set (events (uploadVMImage sample_world ''rg'' ''linuxkit'' ''image.vhd'' sample_globals))
          \<and> EvValidateVhdSize p
               \<in> set (events (uploadVMImage sample_world ''rg'' ''linuxkit'' ''image.vhd'' sample_globals)))
   \<and> events (uploadVMImage sample_world ''rg'' ''linuxkit'' ''image.vhd'' sample_globals) ! 2
        = EvValidateVhd ''/images/image.vhd''
   \<and> events (uploadVMImage sample_world ''rg'' ''linuxkit'' ''image.vhd'' sample_globals) ! 3
        = EvValidateVhdSize ''/images/image.vhd''
   \<and> events (uploadVMImage sample_world ''rg'' ''linuxkit'' ''image.vhd'' sample_globals) ! 6
        = EvCreateContainerIfNotExists sample_client ''linuxkitcontainer'' ContainerAccessTypePrivate"
proof -
  note T = validation_before_blob_service
  have keys: "ListKeys sample_world (accountsClient sample_globals) ''rg'' ''linuxkit''
      = Inr \<lparr>Keys = Some [\<lparr>KeyName = Some ''key1'', Value = Some ''c2VjcmV0''\<rparr>]\<rparr>"
    by (simp add: sample_world_def)
  have keys1: "ListKeys invalid_image_world (accountsClient sample_globals) ''rg'' ''linuxkit''
      = Inr \<lparr>Keys = Some [\<lparr>KeyName = Some ''key1'', Value = Some ''c2VjcmV0''\<rparr>]\<rparr>"
    and keys2: "ListKeys oversized_image_world (accountsClient sample_globals) ''rg'' ''linuxkit''
      = Inr \<lparr>Keys = Some [\<lparr>KeyName = Some ''key1'', Value = Some ''c2VjcmV0''\<rparr>]\<rparr>"
    using keys by (simp_all add: invalid_image_world_def oversized_image_world_def)
  have path1: "Abs invalid_image_world ''image.vhd'' = Inr ''/images/image.vhd''"
    and path2: "Abs oversized_image_world ''image.vhd'' = Inr ''/images/image.vhd''"
    by (simp_all add: invalid_image_world_def oversized_image_world_def sample_world_def)
  have invalid: "ValidateVhd invalid_image_world ''/images/image.vhd'' = Some ''invalid footer''"
    by (simp add: invalid_image_world_def)
  have invalid_run: "uploadVMImage invalid_image_world ''rg'' ''linuxkit'' ''image.vhd'' sample_globals =
        ([EvListKeys (accountsClient sample_globals) ''rg'' ''linuxkit'', EvAbs ''image.vhd'',
          EvValidateVhd ''/images/image.vhd'',
          EvLogFatalf ''Unable to validate VHD: %v'' [''invalid footer'']], sample_globals, Exit 1)"
    by (rule T [THEN conjunct2, THEN conjunct2, THEN conjunct2, THEN conjunct2, THEN conjunct2,
          THEN conjunct1, rule_format, OF keys1 _ path1 invalid]) simp
  have aborted: "(\<forall>e \<in> set (events (uploadVMImage invalid_image_world ''rg'' ''linuxkit'' ''image.vhd''
                      sample_globals)). \<not> blob_service_call e)
      \<and> outcome (uploadVMImage invalid_image_world ''rg'' ''linuxkit'' ''image.vhd'' sample_globals) \<noteq> Ok ()"
    using T [where w = invalid_image_world and rg = "''rg''" and an = "''linuxkit''"
        and ip = "''image.vhd''" and g = sample_globals and p = "''/images/image.vhd''",
        THEN conjunct2, THEN conjunct2, THEN conjunct2, THEN conjunct2, THEN conjunct1]
      path1 invalid
    by simp
  have not_returned:
    "outcome (uploadVMImage invalid_image_world ''rg'' ''linuxkit'' ''image.vhd'' sample_globals) \<noteq> Ok ()"
    using aborted by blast
  have no_blob_call: "list_all (\<lambda>e. \<not> blob_service_call e)
        (events (uploadVMImage invalid_image_world ''rg'' ''linuxkit'' ''image.vhd'' sample_globals))"
    using aborted by (simp add: list_all_iff)
  have valid2: "ValidateVhd oversized_image_world ''/images/image.vhd'' = None"
    by (simp add: oversized_image_world_def sample_world_def)
  have oversized: "ValidateVhdSize oversized_image_world ''/images/image.vhd''
      = Some ''VHD size is too large''"
    by (simp add: oversized_image_world_def)
  have oversized_run: "uploadVMImage oversized_image_world ''rg'' ''linuxkit'' ''image.vhd'' sample_globals =
        ([EvListKeys (accountsClient sample_globals) ''rg'' ''linuxkit'', EvAbs ''image.vhd'',
          EvValidateVhd ''/images/image.vhd'', EvValidateVhdSize ''/images/image.vhd'',
          EvLogFatalf ''Unable to validate VHD size: %v'' [''VHD size is too large'']],
         sample_globals, Exit 1)"
    by (rule T [THEN conjunct2, THEN conjunct2, THEN conjunct2, THEN conjunct2, THEN conjunct2,
          THEN conjunct2, rule_format, OF keys2 _ path2 valid2 oversized]) simp
  have container: "EvCreateContainerIfNotExists sample_client ''linuxkitcontainer'' ContainerAccessTypePrivate
        \<in> set (events (uploadVMImage sample_world ''rg'' ''linuxkit'' ''image.vhd'' sample_globals))"
    by (simp add: sample_run_eq events_def sample_run_def)
  have validated: "\<exists>p. Abs sample_world ''image.vhd'' = Inr p \<and> ValidateVhd sample_world p = None
          \<and> ValidateVhdSize sample_world p = None
          \<and> EvValidateVhd p
               \<in> set (events (uploadVMImage sample_world ''rg'' ''linuxkit'' ''image.vhd'' sample_globals))
          \<and> EvValidateVhdSize p
               \<in> set (events (uploadVMImage sample_world ''rg'' ''linuxkit'' ''image.vhd'' sample_globals))"
    by (rule T [THEN conjunct2, THEN conjunct2, THEN conjunct1, rule_format, OF container]) simp
  have second: "events (uploadVMImage sample_world ''rg'' ''linuxkit'' ''image.vhd'' sample_globals) ! 2
        = EvValidateVhd ''/images/image.vhd''"
    and third: "events (uploadVMImage sample_world ''rg'' ''linuxkit'' ''image.vhd'' sample_globals) ! 3
        = EvValidateVhdSize ''/images/image.vhd''"
    and sixth: "events (uploadVMImage sample_world ''rg'' ''linuxkit'' ''image.vhd'' sample_globals) ! 6
        = EvCreateContainerIfNotExists sample_client ''linuxkitcontainer'' ContainerAccessTypePrivate"
    by (simp_all add: sample_run_eq events_def sample_run_def)
  show ?thesis
    by (intro conjI) (fact path1 invalid invalid_run not_returned no_blob_call valid2 oversized
        oversized_run container validated second third sixth)+
qed

section \<open>Credential loading\<close>

text \<open>C3: for every variable name, \<open>getEnvVarOrExit\<close> returns the value of the variable
  when it is set and not empty; when it is absent or empty the process logs
  \<open>Missing environment variable\<close> with the name and exits with status 1. The environment
  is read once, and no event of the function is a network call.\<close>

theorem getEnvVarOrExit_value_or_exit:
  "(environ w n = Some v \<and> v \<noteq> [] \<longrightarrow> getEnvVarOrExit w n g = ([EvGetenv n], g, Ok v))
   \<and> (environ w n = None \<or> environ w n = Some [] \<longrightarrow>
        getEnvVarOrExit w n g =
          ([EvGetenv n, EvLogFatalf (''Missing environment variable %s'' @ [CHR 0x0A]) [n]], g, Exit 1))
   \<and> (\<forall>e \<in> set (events (getEnvVarOrExit w n g)). \<not> network_call e)
   \<and> length (filter (\<lambda>e. e = EvGetenv n) (events (getEnvVarOrExit w n g))) = 1"
  by (auto simp add: getEnvVarOrExit_def Getenv_def events_def split: option.splits)

theorem getEnvVarOrExit_value_or_exit_witness:
  "environ sample_world ''AZURE_TENANT_ID'' = Some ''tenant''
   \<and> getEnvVarOrExit sample_world ''AZURE_TENANT_ID'' sample_globals
        = ([EvGetenv ''AZURE_TENANT_ID''], sample_globals, Ok ''tenant'')
   \<and> environ sample_world ''AZURE_CLIENT_ID'' = Some []
   \<and> getEnvVarOrExit sample_world ''AZURE_CLIENT_ID'' sample_globals
        = ([EvGetenv ''AZURE_CLIENT_ID'',
            EvLogFatalf (''Missing environment variable %s'' @ [CHR 0x0A]) [''AZURE_CLIENT_ID'']],
           sample_globals, Exit 1)
   \<and> environ sample_world ''AZURE_CLIENT_SECRET'' = None
   \<and> getEnvVarOrExit sample_world ''AZURE_CLIENT_SECRET'' sample_globals
        = ([EvGetenv ''AZURE_CLIENT_SECRET'',
            EvLogFatalf (''Missing environment variable %s'' @ [CHR 0x0A]) [''AZURE_CLIENT_SECRET'']],
           sample_globals, Exit 1)"
  using getEnvVarOrExit_value_or_exit [of sample_world "''AZURE_TENANT_ID''" "''tenant''" sample_globals]
    getEnvVarOrExit_value_or_exit [of sample_world "''AZURE_CLIENT_ID''" _ sample_globals]
    getEnvVarOrExit_value_or_exit [of sample_world "''AZURE_CLIENT_SECRET''" _ sample_globals]
  by (simp add: sample_world_def)

section \<open>The page blob and its metadata come before the transfer\<close>

text \<open>C4: in every run of \<open>uploadVMImage\<close> the page blob is allocated before
  \<open>upload.Upload\<close> is called; every allocation is of \<open>linuxkitimage.vhd\<close> in
  \<open>linuxkitcontainer\<close> with exactly the size of the disk stream opened on the image; the
  blob handed to the upload is the blob allocated, with the size of the stream handed to
  the upload, and its allocation succeeded; from the call of \<open>upload.Upload\<close> on, the run
  allocates no page blob again. And the blob is allocated: when the calls before it
  succeed (the key, the path, the validation, the disk stream, the storage client, the
  container, the metadata of the image), the first nine events of the run are these calls
  and then \<open>PutPageBlob\<close> with the size of the disk stream.\<close>

theorem page_blob_allocated_before_upload:
  "preceded_by is_PutPageBlob is_Upload (events (uploadVMImage w rg an ip g))
   \<and> (\<forall>e \<in> set (events (uploadVMImage w rg an ip g)). is_PutPageBlob e \<longrightarrow>
         (\<exists>p d c. Abs w ip = Inr p \<and> CreateNewDiskStream w p = Inr d
            \<and> e = EvPutPageBlob c defaultStorageContainerName defaultStorageBlobName (GetSize d) None))
   \<and> (\<forall>ctx. EvUpload ctx \<in> set (events (uploadVMImage w rg an ip g)) \<longrightarrow>
         EvPutPageBlob (BlobServiceClient ctx) (ContainerName ctx) (BlobName ctx)
            (GetSize (VhdStream ctx)) None \<in> set (events (uploadVMImage w rg an ip g))
         \<and> PutPageBlob w (BlobServiceClient ctx) (ContainerName ctx) (BlobName ctx)
              (GetSize (VhdStream ctx)) None = None)
   \<and> list_all (\<lambda>e. \<not> is_PutPageBlob e)
        (dropWhile (\<lambda>e. \<not> is_Upload e) (events (uploadVMImage w rg an ip g)))
   \<and> (ListKeys w (accountsClient g) rg an = Inr ak \<longrightarrow> Keys ak = Some (k # ks) \<longrightarrow>
        Value k = Some kv \<longrightarrow> Abs w ip = Inr p \<longrightarrow> ValidateVhd w p = None \<longrightarrow>
        ValidateVhdSize w p = None \<longrightarrow> CreateNewDiskStream w p = Inr d \<longrightarrow>
        NewBasicClient w an kv = (c, None) \<longrightarrow>
        CreateContainerIfNotExists w (BlobStorageClient c) defaultStorageContainerName
          ContainerAccessTypePrivate = None \<longrightarrow>
        NewMetaDataFromLocalVHD w p = Inr md \<longrightarrow>
        take 9 (events (uploadVMImage w rg an ip g)) =
          [EvListKeys (accountsClient g) rg an, EvAbs ip, EvValidateVhd p, EvValidateVhdSize p,
           EvCreateNewDiskStream p, EvNewBasicClient an kv,
           EvCreateContainerIfNotExists (BlobStorageClient c) defaultStorageContainerName
             ContainerAccessTypePrivate,
           EvNewMetaDataFromLocalVHD p,
           EvPutPageBlob (BlobStorageClient c) defaultStorageContainerName defaultStorageBlobName
             (GetSize d) None])"
proof (intro conjI)
  show "preceded_by is_PutPageBlob is_Upload (events (uploadVMImage w rg an ip g))"
    by (simp add: upload_defs events_def split: run_splits)
  show "\<forall>e \<in> set (events (uploadVMImage w rg an ip g)). is_PutPageBlob e \<longrightarrow>
         (\<exists>p d c. Abs w ip = Inr p \<and> CreateNewDiskStream w p = Inr d
            \<and> e = EvPutPageBlob c defaultStorageContainerName defaultStorageBlobName (GetSize d) None)"
    by (simp add: upload_defs events_def split: run_splits)
  show "\<forall>ctx. EvUpload ctx \<in> set (events (uploadVMImage w rg an ip g)) \<longrightarrow>
         EvPutPageBlob (BlobServiceClient ctx) (ContainerName ctx) (BlobName ctx)
            (GetSize (VhdStream ctx)) None \<in> set (events (uploadVMImage w rg an ip g))
         \<and> PutPageBlob w (BlobServiceClient ctx) (ContainerName ctx) (BlobName ctx)
              (GetSize (VhdStream ctx)) None = None"
    by (simp add: upload_defs events_def split: run_splits)
  show "list_all (\<lambda>e. \<not> is_PutPageBlob e)
        (dropWhile (\<lambda>e. \<not> is_Upload e) (events (uploadVMImage w rg an ip g)))"
    by (simp add: upload_defs events_def split: run_splits)
  show "ListKeys w (accountsClient g) rg an = Inr ak \<longrightarrow> Keys ak = Some (k # ks) \<longrightarrow>
        Value k = Some kv \<longrightarrow> Abs w ip = Inr p \<longrightarrow> ValidateVhd w p = None \<longrightarrow>
        ValidateVhdSize w p = None \<longrightarrow> CreateNewDiskStream w p = Inr d \<longrightarrow>
        NewBasicClient w an kv = (c, None) \<longrightarrow>
        CreateContainerIfNotExists w (BlobStorageClient c) defaultStorageContainerName
          ContainerAccessTypePrivate = None \<longrightarrow>
        NewMetaDataFromLocalVHD w p = Inr md \<longrightarrow>
        take 9 (events (uploadVMImage w rg an ip g)) =
          [EvListKeys (accountsClient g) rg an, EvAbs ip, EvValidateVhd p, EvValidateVhdSize p,
           EvCreateNewDiskStream p, EvNewBasicClient an kv,
           EvCreateContainerIfNotExists (BlobStorageClient c) defaultStorageContainerName
             ContainerAccessTypePrivate,
           EvNewMetaDataFromLocalVHD p,
           EvPutPageBlob (BlobStorageClient c) defaultStorageContainerName defaultStorageBlobName
             (GetSize d) None]"
    by (simp add: upload_defs events_def split: run_splits)
qed

text \<open>C4 in the sample world: the calls before the allocation succeed, so the blob is
  allocated, ninth, with the 10 MiB of the sample stream; the upload is called, so the blob
  it fills is the blob allocated.\<close>

theorem page_blob_allocated_before_upload_witness:
  "take 9 (events (uploadVMImage sample_world ''rg'' ''linuxkit'' ''image.vhd'' sample_globals)) =
          [EvListKeys (accountsClient sample_globals) ''rg'' ''linuxkit'', EvAbs ''image.vhd'', EvValidateVhd ''/images/image.vhd'', EvValidateVhdSize ''/images/image.vhd'',
           EvCreateNewDiskStream ''/images/image.vhd'', EvNewBasicClient ''linuxkit'' ''c2VjcmV0'',
           EvCreateContainerIfNotExists (BlobStorageClient (Client ''linuxkit'' ''c2VjcmV0'')) defaultStorageContainerName
             ContainerAccessTypePrivate,
           EvNewMetaDataFromLocalVHD ''/images/image.vhd'',
           EvPutPageBlob (BlobStorageClient (Client ''linuxkit'' ''c2VjcmV0'')) defaultStorageContainerName defaultStorageBlobName
             (GetSize sample_stream) None]
   \<and> GetSize sample_stream = 10485760
   \<and> EvUpload sample_context
        \<in> set (events (uploadVMImage sample_world ''rg'' ''linuxkit'' ''image.vhd'' sample_globals))
   \<and> EvPutPageBlob (BlobServiceClient sample_context) (ContainerName sample_context)
        (BlobName sample_context) (GetSize (VhdStream sample_context)) None
        \<in> set (events (uploadVMImage sample_world ''rg'' ''linuxkit'' ''image.vhd'' sample_globals))
   \<and> PutPageBlob sample_world (BlobServiceClient sample_context) (ContainerName sample_context)
        (BlobName sample_context) (GetSize (VhdStream sample_context)) None = None"
proof -
  note T = page_blob_allocated_before_upload
  have allocated: "take 9 (events (uploadVMImage sample_world ''rg'' ''linuxkit'' ''image.vhd'' sample_globals)) =
          [EvListKeys (accountsClient sample_globals) ''rg'' ''linuxkit'', EvAbs ''image.vhd'', EvValidateVhd ''/images/image.vhd'', EvValidateVhdSize ''/images/image.vhd'',
           EvCreateNewDiskStream ''/images/image.vhd'', EvNewBasicClient ''linuxkit'' ''c2VjcmV0'',
           EvCreateContainerIfNotExists (BlobStorageClient (Client ''linuxkit'' ''c2VjcmV0'')) defaultStorageContainerName
             ContainerAccessTypePrivate,
           EvNewMetaDataFromLocalVHD ''/images/image.vhd'',
           EvPutPageBlob (BlobStorageClient (Client ''linuxkit'' ''c2VjcmV0'')) defaultStorageContainerName defaultStorageBlobName
             (GetSize sample_stream) None]"
    by (rule T [THEN conjunct2, THEN conjunct2, THEN conjunct2, THEN conjunct2, rule_format,
          OF sample_answers(1-10)])
  have size: "GetSize sample_stream = 10485760"
    by (simp add: GetSize_def sample_stream_def)
  have same_blob: "EvPutPageBlob (BlobServiceClient sample_context) (ContainerName sample_context)
        (BlobName sample_context) (GetSize (VhdStream sample_context)) None
        \<in> set (events (uploadVMImage sample_world ''rg'' ''linuxkit'' ''image.vhd'' sample_globals))
      \<and> PutPageBlob sample_world (BlobServiceClient sample_context) (ContainerName sample_context)
        (BlobName sample_context) (GetSize (VhdStream sample_context)) None = None"
    by (rule T [THEN conjunct2, THEN conjunct2, THEN conjunct1, rule_format, OF sample_upload])
  show ?thesis
    using allocated size sample_upload same_blob by blast
qed

text \<open>C5, as stated, fails: the upload does not always follow tags on the blob. The error
  of \<open>ToMap\<close> is dropped, so when the conversion of the metadata fails, the nil map is what
  \<open>SetBlobMetadata\<close> writes, no other call sets metadata, and \<open>upload.Upload\<close> is called on
  a blob that carries none.\<close>

theorem upload_without_tags_counterexample:
  "ToMap failing_ToMap_world sample_metadata = (None, Some ''json: unsupported value'')
   \<and> filter is_SetBlobMetadata
        (events (uploadVMImage failing_ToMap_world ''rg'' ''linuxkit'' ''image.vhd'' sample_globals))
       = [EvSetBlobMetadata sample_client defaultStorageContainerName defaultStorageBlobName
            None (Some [])]
   \<and> events (uploadVMImage failing_ToMap_world ''rg'' ''linuxkit'' ''image.vhd'' sample_globals) ! 12
       = EvUpload sample_context
   \<and> outcome (uploadVMImage failing_ToMap_world ''rg'' ''linuxkit'' ''image.vhd'' sample_globals)
       = Ok ()"
  by (simp add: failing_ToMap_run events_def outcome_def sample_run_def)
     (simp add: failing_ToMap_world_def)

text \<open>C5, amended: in every run of \<open>uploadVMImage\<close> the map that \<open>ToMap\<close> returned for the
  metadata of the image (the nil map when the conversion failed) is written with
  \<open>SetBlobMetadata\<close> before \<open>upload.Upload\<close> is called: when the upload is called, that map
  has been written on the blob that the upload fills, and the write succeeded. And the
  map is written, right after the allocation: when the calls before it succeed (those
  before the allocation, and the allocation), the first ten events of the run are these
  calls, \<open>PutPageBlob\<close> ninth, and then \<open>SetBlobMetadata\<close> with that map.\<close>

theorem metadata_set_before_upload:
  "preceded_by is_SetBlobMetadata is_Upload (events (uploadVMImage w rg an ip g))
   \<and> (\<forall>ctx. EvUpload ctx \<in> set (events (uploadVMImage w rg an ip g)) \<longrightarrow>
         (\<exists>p md. Abs w ip = Inr p \<and> NewMetaDataFromLocalVHD w p = Inr md
            \<and> EvSetBlobMetadata (BlobServiceClient ctx) (ContainerName ctx) (BlobName ctx)
                 (fst (ToMap w md)) (Some []) \<in> set (events (uploadVMImage w rg an ip g))
            \<and> SetBlobMetadata w (BlobServiceClient ctx) (ContainerName ctx) (BlobName ctx)
                 (fst (ToMap w md)) (Some []) = None))
   \<and> (ListKeys w (accountsClient g) rg an = Inr ak \<longrightarrow> Keys ak = Some (k # ks) \<longrightarrow>
        Value k = Some kv \<longrightarrow> Abs w ip = Inr p \<longrightarrow> ValidateVhd w p = None \<longrightarrow>
        ValidateVhdSize w p = None \<longrightarrow> CreateNewDiskStream w p = Inr d \<longrightarrow>
        NewBasicClient w an kv = (c, None) \<longrightarrow>
        CreateContainerIfNotExists w (BlobStorageClient c) defaultStorageContainerName
          ContainerAccessTypePrivate = None \<longrightarrow>
        NewMetaDataFromLocalVHD w p = Inr md \<longrightarrow>
        PutPageBlob w (BlobStorageClient c) defaultStorageContainerName defaultStorageBlobName
          (GetSize d) None = None \<longrightarrow>
        take 10 (events (uploadVMImage w rg an ip g)) =
          [EvListKeys (accountsClient g) rg an, EvAbs ip, EvValidateVhd p, EvValidateVhdSize p,
           EvCreateNewDiskStream p, EvNewBasicClient an kv,
           EvCreateContainerIfNotExists (BlobStorageClient c) defaultStorageContainerName
             ContainerAccessTypePrivate,
           EvNewMetaDataFromLocalVHD p,
           EvPutPageBlob (BlobStorageClient c) defaultStorageContainerName defaultStorageBlobName
             (GetSize d) None,
           EvSetBlobMetadata (BlobStorageClient c) defaultStorageContainerName defaultStorageBlobName
             (fst (ToMap w md)) (Some [])])"
proof (intro conjI)
  show "preceded_by is_SetBlobMetadata is_Upload (events (uploadVMImage w rg an ip g))"
    by (simp add: upload_defs events_def split: run_splits)
  show "\<forall>ctx. EvUpload ctx \<in> set (events (uploadVMImage w rg an ip g)) \<longrightarrow>
         (\<exists>p md. Abs w ip = Inr p \<and> NewMetaDataFromLocalVHD w p = Inr md
            \<and> EvSetBlobMetadata (BlobServiceClient ctx) (ContainerName ctx) (BlobName ctx)
                 (fst (ToMap w md)) (Some []) \<in> set (events (uploadVMImage w rg an ip g))
            \<and> SetBlobMetadata w (BlobServiceClient ctx) (ContainerName ctx) (BlobName ctx)
                 (fst (ToMap w md)) (Some []) = None)"
    by (simp add: upload_defs events_def split: run_splits)
  show "ListKeys w (accountsClient g) rg an = Inr ak \<longrightarrow> Keys ak = Some (k # ks) \<longrightarrow>
        Value k = Some kv \<longrightarrow> Abs w ip = Inr p \<longrightarrow> ValidateVhd w p = None \<longrightarrow>
        ValidateVhdSize w p = None \<longrightarrow> CreateNewDiskStream w p = Inr d \<longrightarrow>
        NewBasicClient w an kv = (c, None) \<longrightarrow>
        CreateContainerIfNotExists w (BlobStorageClient c) defaultStorageContainerName
          ContainerAccessTypePrivate = None \<longrightarrow>
        NewMetaDataFromLocalVHD w p = Inr md \<longrightarrow>
        PutPageBlob w (BlobStorageClient c) defaultStorageContainerName defaultStorageBlobName
          (GetSize d) None = None \<longrightarrow>
        take 10 (events (uploadVMImage w rg an ip g)) =
          [EvListKeys (accountsClient g) rg an, EvAbs ip, EvValidateVhd p, EvValidateVhdSize p,
           EvCreateNewDiskStream p, EvNewBasicClient an kv,
           EvCreateContainerIfNotExists (BlobStorageClient c) defaultStorageContainerName
             ContainerAccessTypePrivate,
           EvNewMetaDataFromLocalVHD p,
           EvPutPageBlob (BlobStorageClient c) defaultStorageContainerName defaultStorageBlobName
             (GetSize d) None,
           EvSetBlobMetadata (BlobStorageClient c) defaultStorageContainerName defaultStorageBlobName
             (fst (ToMap w md)) (Some [])]"
    by (simp add: upload_defs events_def split: run_splits)
qed

text \<open>The amended C5 in the sample world: the calls up to the allocation succeed, so the
  map of the sample metadata is written, tenth; the upload is called, so a successful write
  of a map on its blob is in the run.\<close>

theorem metadata_set_before_upload_witness:
  "take 10 (events (uploadVMImage sample_world ''rg'' ''linuxkit'' ''image.vhd'' sample_globals)) =
          [EvListKeys (accountsClient sample_globals) ''rg'' ''linuxkit'', EvAbs ''image.vhd'', EvValidateVhd ''/images/image.vhd'', EvValidateVhdSize ''/images/image.vhd'',
           EvCreateNewDiskStream ''/images/image.vhd'', EvNewBasicClient ''linuxkit'' ''c2VjcmV0'',
           EvCreateContainerIfNotExists (BlobStorageClient (Client ''linuxkit'' ''c2VjcmV0'')) defaultStorageContainerName
             ContainerAccessTypePrivate,
           EvNewMetaDataFromLocalVHD ''/images/image.vhd'',
           EvPutPageBlob (BlobStorageClient (Client ''linuxkit'' ''c2VjcmV0'')) defaultStorageContainerName defaultStorageBlobName
             (GetSize sample_stream) None,
           EvSetBlobMetadata (BlobStorageClient (Client ''linuxkit'' ''c2VjcmV0'')) defaultStorageContainerName defaultStorageBlobName
             (fst (ToMap sample_world sample_metadata)) (Some [])]
   \<and> fst (ToMap sample_world sample_metadata) = Some [(''diskmetadata'', ''{}'')]
   \<and> EvUpload sample_context
        \<in> set (events (uploadVMImage sample_world ''rg'' ''linuxkit'' ''image.vhd'' sample_globals))
   \<and> (\<exists>p md. Abs sample_world ''image.vhd'' = Inr p
         \<and> NewMetaDataFromLocalVHD sample_world p = Inr md
         \<and> EvSetBlobMetadata (BlobServiceClient sample_context) (ContainerName sample_context)
              (BlobName sample_context) (fst (ToMap sample_world md)) (Some [])
            \<in> set (events (uploadVMImage sample_world ''rg'' ''linuxkit'' ''image.vhd'' sample_globals))
         \<and> SetBlobMetadata sample_world (BlobServiceClient sample_context)
              (ContainerName sample_context) (BlobName sample_context)
              (fst (ToMap sample_world md)) (Some []) = None)"
proof -
  note T = metadata_set_before_upload
  have written: "take 10 (events (uploadVMImage sample_world ''rg'' ''linuxkit'' ''image.vhd'' sample_globals)) =
          [EvListKeys (accountsClient sample_globals) ''rg'' ''linuxkit'', EvAbs ''image.vhd'', EvValidateVhd ''/images/image.vhd'', EvValidateVhdSize ''/images/image.vhd'',
           EvCreateNewDiskStream ''/images/image.vhd'', EvNewBasicClient ''linuxkit'' ''c2VjcmV0'',
           EvCreateContainerIfNotExists (BlobStorageClient (Client ''linuxkit'' ''c2VjcmV0'')) defaultStorageContainerName
             ContainerAccessTypePrivate,
           EvNewMetaDataFromLocalVHD ''/images/image.vhd'',
           EvPutPageBlob (BlobStorageClient (Client ''linuxkit'' ''c2VjcmV0'')) defaultStorageContainerName defaultStorageBlobName
             (GetSize sample_stream) None,
           EvSetBlobMetadata (BlobStorageClient (Client ''linuxkit'' ''c2VjcmV0'')) defaultStorageContainerName defaultStorageBlobName
             (fst (ToMap sample_world sample_metadata)) (Some [])]"
    by (rule T [THEN conjunct2, THEN conjunct2, rule_format, OF sample_answers(1-11)])
  have tags: "fst (ToMap sample_world sample_metadata) = Some [(''diskmetadata'', ''{}'')]"
    by (simp add: sample_world_def)
  have before_upload: "\<exists>p md. Abs sample_world ''image.vhd'' = Inr p
         \<and> NewMetaDataFromLocalVHD sample_world p = Inr md
         \<and> EvSetBlobMetadata (BlobServiceClient sample_context) (ContainerName sample_context)
              (BlobName sample_context) (fst (ToMap sample_world md)) (Some [])
            \<in> set (events (uploadVMImage sample_world ''rg'' ''linuxkit'' ''image.vhd'' sample_globals))
         \<and> SetBlobMetadata sample_world (BlobServiceClient sample_context)
              (ContainerName sample_context) (BlobName sample_context)
              (fst (ToMap sample_world md)) (Some []) = None"
    by (rule T [THEN conjunct2, THEN conjunct1, rule_format, OF sample_upload])
  show ?thesis
    using written tags sample_upload before_upload by blast
qed

section \<open>Finalization\<close>

text \<open>C6: \<open>setBlobMD5Hash\<close> sets the \<open>ContentMD5\<close> property of the blob to the base64 text
  of the local MD5 digest exactly when that digest is not nil: with no digest it makes no
  call and returns; with a digest it calls \<open>SetBlobProperties\<close> once, and a failure of
  that call is fatal (message, exit status 1). In \<open>uploadVMImage\<close> the property is set
  only after \<open>upload.Upload\<close> was called and returned no error, with the digest handed
  to the upload; after a successful upload it is set when there is a digest, and when
  there is none no property is set and the run returns.\<close>

theorem setBlobMD5Hash_sets_digest_or_skips:
  "(MD5Hash (FileMetaData md) = None \<longrightarrow> setBlobMD5Hash w c cn bn md g = ([], g, Ok ()))
   \<and> (MD5Hash (FileMetaData md) = Some h \<longrightarrow>
        SetBlobProperties w c cn bn \<lparr>ContentMD5 = EncodeToString w h\<rparr> = None \<longrightarrow>
        setBlobMD5Hash w c cn bn md g =
          ([EvSetBlobProperties c cn bn \<lparr>ContentMD5 = EncodeToString w h\<rparr>], g, Ok ()))
   \<and> (MD5Hash (FileMetaData md) = Some h \<longrightarrow>
        SetBlobProperties w c cn bn \<lparr>ContentMD5 = EncodeToString w h\<rparr> = Some e \<longrightarrow>
        setBlobMD5Hash w c cn bn md g =
          ([EvSetBlobProperties c cn bn \<lparr>ContentMD5 = EncodeToString w h\<rparr>,
            EvLogFatalf ''Unable to set blob properties: %v'' [e]], g, Exit 1))
   \<and> preceded_by is_Upload is_SetBlobProperties (events (uploadVMImage w rg an ip g'))
   \<and> (\<forall>x \<in> set (events (uploadVMImage w rg an ip g')). is_SetBlobProperties x \<longrightarrow>
        (\<exists>ctx d. EvUpload ctx \<in> set (events (uploadVMImage w rg an ip g')) \<and> Upload w ctx = None
           \<and> MD5Hash_ctx ctx = Some d
           \<and> x = EvSetBlobProperties (BlobServiceClient ctx) (ContainerName ctx) (BlobName ctx)
                   \<lparr>ContentMD5 = EncodeToString w d\<rparr>))
   \<and> (\<forall>ctx. EvUpload ctx \<in> set (events (uploadVMImage w rg an ip g')) \<and> Upload w ctx = None \<longrightarrow>
        (MD5Hash_ctx ctx = None \<longrightarrow>
           (\<forall>x \<in> set (events (uploadVMImage w rg an ip g')). \<not> is_SetBlobProperties x)
           \<and> outcome (uploadVMImage w rg an ip g') = Ok ())
        \<and> (\<forall>d. MD5Hash_ctx ctx = Some d \<longrightarrow>
             EvSetBlobProperties (BlobServiceClient ctx) (ContainerName ctx) (BlobName ctx)
               \<lparr>ContentMD5 = EncodeToString w d\<rparr> \<in> set (events (uploadVMImage w rg an ip g'))))"
proof (intro conjI)
  show "MD5Hash (FileMetaData md) = None \<longrightarrow> setBlobMD5Hash w c cn bn md g = ([], g, Ok ())"
    by (simp add: setBlobMD5Hash_def)
  show "MD5Hash (FileMetaData md) = Some h \<longrightarrow>
        SetBlobProperties w c cn bn \<lparr>ContentMD5 = EncodeToString w h\<rparr> = None \<longrightarrow>
        setBlobMD5Hash w c cn bn md g =
          ([EvSetBlobProperties c cn bn \<lparr>ContentMD5 = EncodeToString w h\<rparr>], g, Ok ())"
    by (simp add: setBlobMD5Hash_def Let_def)
  show "MD5Hash (FileMetaData md) = Some h \<longrightarrow>
        SetBlobProperties w c cn bn \<lparr>ContentMD5 = EncodeToString w h\<rparr> = Some e \<longrightarrow>
        setBlobMD5Hash w c cn bn md g =
          ([EvSetBlobProperties c cn bn \<lparr>ContentMD5 = EncodeToString w h\<rparr>,
            EvLogFatalf ''Unable to set blob properties: %v'' [e]], g, Exit 1)"
    by (simp add: setBlobMD5Hash_def Let_def)
  show "preceded_by is_Upload is_SetBlobProperties (events (uploadVMImage w rg an ip g'))"
    by (simp add: upload_defs events_def split: run_splits)
  show "\<forall>x \<in> set (events (uploadVMImage w rg an ip g')). is_SetBlobProperties x \<longrightarrow>
        (\<exists>ctx d. EvUpload ctx \<in> set (events (uploadVMImage w rg an ip g')) \<and> Upload w ctx = None
           \<and> MD5Hash_ctx ctx = Some d
           \<and> x = EvSetBlobProperties (BlobServiceClient ctx) (ContainerName ctx) (BlobName ctx)
                   \<lparr>ContentMD5 = EncodeToString w d\<rparr>)"
    by (simp add: upload_defs events_def split: run_splits)
  show "\<forall>ctx. EvUpload ctx \<in> set (events (uploadVMImage w rg an ip g')) \<and> Upload w ctx = None \<longrightarrow>
        (MD5Hash_ctx ctx = None \<longrightarrow>
           (\<forall>x \<in> set (events (uploadVMImage w rg an ip g')). \<not> is_SetBlobProperties x)
           \<and> outcome (uploadVMImage w rg an ip g') = Ok ())
        \<and> (\<forall>d. MD5Hash_ctx ctx = Some d \<longrightarrow>
             EvSetBlobProperties (BlobServiceClient ctx) (ContainerName ctx) (BlobName ctx)
               \<lparr>ContentMD5 = EncodeToString w d\<rparr> \<in> set (events (uploadVMImage w rg an ip g')))"
    by (simp add: upload_defs events_def outcome_def split: run_splits)
qed

theorem setBlobMD5Hash_sets_digest_or_skips_witness:
  "MD5Hash (FileMetaData sample_metadata) = Some sample_digest
   \<and> SetBlobProperties sample_world sample_client ''linuxkitcontainer'' ''linuxkitimage.vhd''
        \<lparr>ContentMD5 = EncodeToString sample_world sample_digest\<rparr> = None
   \<and> setBlobMD5Hash sample_world sample_client ''linuxkitcontainer'' ''linuxkitimage.vhd''
        sample_metadata sample_globals =
        ([EvSetBlobProperties sample_client ''linuxkitcontainer'' ''linuxkitimage.vhd''
            \<lparr>ContentMD5 = EncodeToString sample_world sample_digest\<rparr>], sample_globals, Ok ())
   \<and> EncodeToString sample_world sample_digest = ''1B2M2Y8AsgTpgAmY7PhCfg==''
   \<and> MD5Hash (FileMetaData \<lparr>FileMetaData = \<lparr>MD5Hash = None\<rparr>\<rparr>) = None
   \<and> setBlobMD5Hash sample_world sample_client ''linuxkitcontainer'' ''linuxkitimage.vhd''
        \<lparr>FileMetaData = \<lparr>MD5Hash = None\<rparr>\<rparr> sample_globals = ([], sample_globals, Ok ())
   \<and> SetBlobProperties (sample_world\<lparr>SetBlobProperties := \<lambda>c n b h. Some ''403 Forbidden''\<rparr>)
        sample_client ''linuxkitcontainer'' ''linuxkitimage.vhd''
        \<lparr>ContentMD5 = EncodeToString (sample_world\<lparr>SetBlobProperties := \<lambda>c n b h. Some ''403 Forbidden''\<rparr>)
                        sample_digest\<rparr> = Some ''403 Forbidden''
   \<and> setBlobMD5Hash (sample_world\<lparr>SetBlobProperties := \<lambda>c n b h. Some ''403 Forbidden''\<rparr>)
        sample_client ''linuxkitcontainer'' ''linuxkitimage.vhd'' sample_metadata sample_globals =
        ([EvSetBlobProperties sample_client ''linuxkitcontainer'' ''linuxkitimage.vhd''
            \<lparr>ContentMD5 = EncodeToString (sample_world\<lparr>SetBlobProperties := \<lambda>c n b h. Some ''403 Forbidden''\<rparr>)
                            sample_digest\<rparr>,
          EvLogFatalf ''Unable to set blob properties: %v'' [''403 Forbidden'']], sample_globals, Exit 1)
   \<and> EvUpload sample_context
        \<in> set (events (uploadVMImage sample_world ''rg'' ''linuxkit'' ''image.vhd'' sample_globals))
   \<and> Upload sample_world sample_context = None
   \<and> MD5Hash_ctx sample_context = Some sample_digest
   \<and> EvSetBlobProperties (BlobServiceClient sample_context) (ContainerName sample_context)
        (BlobName sample_context) \<lparr>ContentMD5 = EncodeToString sample_world sample_digest\<rparr>
        \<in> set (events (uploadVMImage sample_world ''rg'' ''linuxkit'' ''image.vhd'' sample_globals))"
proof -
  note T = setBlobMD5Hash_sets_digest_or_skips
  let ?bad = "sample_world\<lparr>SetBlobProperties := \<lambda>c n b h. Some ''403 Forbidden''\<rparr>"
  have digest: "MD5Hash (FileMetaData sample_metadata) = Some sample_digest"
    by (simp add: sample_metadata_def)
  have accepted: "SetBlobProperties sample_world sample_client ''linuxkitcontainer'' ''linuxkitimage.vhd''
        \<lparr>ContentMD5 = EncodeToString sample_world sample_digest\<rparr> = None"
    by (simp add: sample_world_def)
  have set_ok: "setBlobMD5Hash sample_world sample_client ''linuxkitcontainer'' ''linuxkitimage.vhd''
        sample_metadata sample_globals =
        ([EvSetBlobProperties sample_client ''linuxkitcontainer'' ''linuxkitimage.vhd''
            \<lparr>ContentMD5 = EncodeToString sample_world sample_digest\<rparr>], sample_globals, Ok ())"
    by (rule T [THEN conjunct2, THEN conjunct1, rule_format, OF digest accepted])
  have encoded: "EncodeToString sample_world sample_digest = ''1B2M2Y8AsgTpgAmY7PhCfg==''"
    by (simp add: sample_world_def)
  have no_digest: "MD5Hash (FileMetaData \<lparr>FileMetaData = \<lparr>MD5Hash = None\<rparr>\<rparr>) = None"
    by simp
  have skipped: "setBlobMD5Hash sample_world sample_client ''linuxkitcontainer'' ''linuxkitimage.vhd''
        \<lparr>FileMetaData = \<lparr>MD5Hash = None\<rparr>\<rparr> sample_globals = ([], sample_globals, Ok ())"
    by (rule T [THEN conjunct1, rule_format, OF no_digest])
  have refused: "SetBlobProperties ?bad sample_client ''linuxkitcontainer'' ''linuxkitimage.vhd''
        \<lparr>ContentMD5 = EncodeToString ?bad sample_digest\<rparr> = Some ''403 Forbidden''"
    by simp
  have fatal: "setBlobMD5Hash ?bad
        sample_client ''linuxkitcontainer'' ''linuxkitimage.vhd'' sample_metadata sample_globals =
        ([EvSetBlobProperties sample_client ''linuxkitcontainer'' ''linuxkitimage.vhd''
            \<lparr>ContentMD5 = EncodeToString ?bad sample_digest\<rparr>,
          EvLogFatalf ''Unable to set blob properties: %v'' [''403 Forbidden'']], sample_globals, Exit 1)"
    by (rule T [THEN conjunct2, THEN conjunct2, THEN conjunct1, rule_format, OF digest refused])
  have uploaded: "EvUpload sample_context
        \<in> set (events (uploadVMImage sample_world ''rg'' ''linuxkit'' ''image.vhd'' sample_globals))"
    by (simp add: sample_run_eq events_def sample_run_def)
  have upload_ok: "Upload sample_world sample_context = None"
    by (simp add: sample_world_def)
  have ctx_digest: "MD5Hash_ctx sample_context = Some sample_digest"
    by (simp add: sample_context_def)
  have tagged: "EvSetBlobProperties (BlobServiceClient sample_context) (ContainerName sample_context)
        (BlobName sample_context) \<lparr>ContentMD5 = EncodeToString sample_world sample_digest\<rparr>
        \<in> set (events (uploadVMImage sample_world ''rg'' ''linuxkit'' ''image.vhd'' sample_globals))"
    using T [where w = sample_world and rg = "''rg''" and an = "''linuxkit''" and ip = "''image.vhd''"
        and g' = sample_globals,
        THEN conjunct2, THEN conjunct2, THEN conjunct2, THEN conjunct2, THEN conjunct2]
      uploaded upload_ok ctx_digest
    by blast
  show ?thesis
    by (intro conjI) (fact digest accepted set_ok encoded no_digest skipped refused fatal uploaded
        upload_ok ctx_digest tagged)+
qed

section \<open>The context handed to the upload\<close>

text \<open>C7: in every run of \<open>uploadVMImage\<close>, whatever the arguments, the environment and
  the answers of the libraries, the parallelism of the context handed to \<open>upload.Upload\<close>
  is \<open>8 * runtime.NumCPU()\<close>: Go's multiplication on \<open>int\<close>, which is 8 times the number
  of processing units as integers for every count below \<open>2^60\<close>. And such a context is
  handed over: when the calls before the upload succeed, the first thirteen events of the
  run are these calls and then \<open>upload.Upload\<close> with a context whose parallelism is
  \<open>8 * runtime.NumCPU()\<close>.\<close>

theorem parallelism_eight_times_NumCPU:
  "(\<forall>ctx. EvUpload ctx \<in> set (events (uploadVMImage w rg an ip g)) \<longrightarrow>
     Parallelism ctx = 8 * NumCPU w
     \<and> (0 \<le> sint (NumCPU w) \<and> sint (NumCPU w) < 2 ^ 60 \<longrightarrow>
          sint (Parallelism ctx) = 8 * sint (NumCPU w)))
   \<and> (ListKeys w (accountsClient g) rg an = Inr ak \<longrightarrow> Keys ak = Some (k # ks) \<longrightarrow>
        Value k = Some kv \<longrightarrow> Abs w ip = Inr p \<longrightarrow> ValidateVhd w p = None \<longrightarrow>
        ValidateVhdSize w p = None \<longrightarrow> CreateNewDiskStream w p = Inr d \<longrightarrow>
        NewBasicClient w an kv = (c, None) \<longrightarrow>
        CreateContainerIfNotExists w (BlobStorageClient c) defaultStorageContainerName
          ContainerAccessTypePrivate = None \<longrightarrow>
        NewMetaDataFromLocalVHD w p = Inr md \<longrightarrow>
        PutPageBlob w (BlobStorageClient c) defaultStorageContainerName defaultStorageBlobName
          (GetSize d) None = None \<longrightarrow>
        SetBlobMetadata w (BlobStorageClient c) defaultStorageContainerName defaultStorageBlobName
          (fst (ToMap w md)) (Some []) = None \<longrightarrow>
        LocateUploadableRanges w d [] 2097152 = Inr r1 \<longrightarrow> DetectEmptyRanges w d r1 = Inr r2 \<longrightarrow>
        take 13 (events (uploadVMImage w rg an ip g)) =
          [EvListKeys (accountsClient g) rg an, EvAbs ip, EvValidateVhd p, EvValidateVhdSize p,
           EvCreateNewDiskStream p, EvNewBasicClient an kv,
           EvCreateContainerIfNotExists (BlobStorageClient c) defaultStorageContainerName
             ContainerAccessTypePrivate,
           EvNewMetaDataFromLocalVHD p,
           EvPutPageBlob (BlobStorageClient c) defaultStorageContainerName defaultStorageBlobName
             (GetSize d) None,
           EvSetBlobMetadata (BlobStorageClient c) defaultStorageContainerName defaultStorageBlobName
             (fst (ToMap w md)) (Some []),
           EvLocateUploadableRanges d [] 2097152, EvDetectEmptyRanges d r1,
           EvUpload \<lparr>VhdStream = d, UploadableRanges = r2, AlreadyProcessedBytes = 0,
             BlobServiceClient = BlobStorageClient c,
             ContainerName = defaultStorageContainerName, BlobName = defaultStorageBlobName,
             Parallelism = 8 * NumCPU w, Resume = False,
             MD5Hash_ctx = MD5Hash (FileMetaData md)\<rparr>])"
proof (intro conjI)
  have "\<forall>ctx. EvUpload ctx \<in> set (events (uploadVMImage w rg an ip g)) \<longrightarrow>
     Parallelism ctx = 8 * NumCPU w"
    by (simp add: upload_defs events_def split: run_splits)
  then show "\<forall>ctx. EvUpload ctx \<in> set (events (uploadVMImage w rg an ip g)) \<longrightarrow>
     Parallelism ctx = 8 * NumCPU w
     \<and> (0 \<le> sint (NumCPU w) \<and> sint (NumCPU w) < 2 ^ 60 \<longrightarrow>
          sint (Parallelism ctx) = 8 * sint (NumCPU w))"
    using sint_times_8 [of "NumCPU w"] by auto
  show "ListKeys w (accountsClient g) rg an = Inr ak \<longrightarrow> Keys ak = Some (k # ks) \<longrightarrow>
        Value k = Some kv \<longrightarrow> Abs w ip = Inr p \<longrightarrow> ValidateVhd w p = None \<longrightarrow>
        ValidateVhdSize w p = None \<longrightarrow> CreateNewDiskStream w p = Inr d \<longrightarrow>
        NewBasicClient w an kv = (c, None) \<longrightarrow>
        CreateContainerIfNotExists w (BlobStorageClient c) defaultStorageContainerName
          ContainerAccessTypePrivate = None \<longrightarrow>
        NewMetaDataFromLocalVHD w p = Inr md \<longrightarrow>
        PutPageBlob w (BlobStorageClient c) defaultStorageContainerName defaultStorageBlobName
          (GetSize d) None = None \<longrightarrow>
        SetBlobMetadata w (BlobStorageClient c) defaultStorageContainerName defaultStorageBlobName
          (fst (ToMap w md)) (Some []) = None \<longrightarrow>
        LocateUploadableRanges w d [] 2097152 = Inr r1 \<longrightarrow> DetectEmptyRanges w d r1 = Inr r2 \<longrightarrow>
        take 13 (events (uploadVMImage w rg an ip g)) =
          [EvListKeys (accountsClient g) rg an, EvAbs ip, EvValidateVhd p, EvValidateVhdSize p,
           EvCreateNewDiskStream p, EvNewBasicClient an kv,
           EvCreateContainerIfNotExists (BlobStorageClient c) defaultStorageContainerName
             ContainerAccessTypePrivate,
           EvNewMetaDataFromLocalVHD p,
           EvPutPageBlob (BlobStorageClient c) defaultStorageContainerName defaultStorageBlobName
             (GetSize d) None,
           EvSetBlobMetadata (BlobStorageClient c) defaultStorageContainerName defaultStorageBlobName
             (fst (ToMap w md)) (Some []),
           EvLocateUploadableRanges d [] 2097152, EvDetectEmptyRanges d r1,
           EvUpload \<lparr>VhdStream = d, UploadableRanges = r2, AlreadyProcessedBytes = 0,
             BlobServiceClient = BlobStorageClient c,
             ContainerName = defaultStorageContainerName, BlobName = defaultStorageBlobName,
             Parallelism = 8 * NumCPU w, Resume = False,
             MD5Hash_ctx = MD5Hash (FileMetaData md)\<rparr>]"
    by (simp add: upload_defs events_def TotalRangeLength_def split: run_splits)
qed

text \<open>C7 in the sample world, with 4 processing units: the calls before the upload
  succeed, so the upload is called, thirteenth, with a parallelism of \<open>8 * 4\<close>, which is 32
  as a Go \<open>int\<close> and as an integer.\<close>

theorem parallelism_eight_times_NumCPU_witness:
  "take 13 (events (uploadVMImage sample_world ''rg'' ''linuxkit'' ''image.vhd'' sample_globals)) =
          [EvListKeys (accountsClient sample_globals) ''rg'' ''linuxkit'', EvAbs ''image.vhd'', EvValidateVhd ''/images/image.vhd'', EvValidateVhdSize ''/images/image.vhd'',
           EvCreateNewDiskStream ''/images/image.vhd'', EvNewBasicClient ''linuxkit'' ''c2VjcmV0'',
           EvCreateContainerIfNotExists (BlobStorageClient (Client ''linuxkit'' ''c2VjcmV0'')) defaultStorageContainerName
             ContainerAccessTypePrivate,
           EvNewMetaDataFromLocalVHD ''/images/image.vhd'',
           EvPutPageBlob (BlobStorageClient (Client ''linuxkit'' ''c2VjcmV0'')) defaultStorageContainerName defaultStorageBlobName
             (GetSize sample_stream) None,
           EvSetBlobMetadata (BlobStorageClient (Client ''linuxkit'' ''c2VjcmV0'')) defaultStorageContainerName defaultStorageBlobName
             (fst (ToMap sample_world sample_metadata)) (Some []),
           EvLocateUploadableRanges sample_stream [] 2097152, EvDetectEmptyRanges sample_stream sample_ranges,
           EvUpload \<lparr>VhdStream = sample_stream, UploadableRanges = sample_ranges, AlreadyProcessedBytes = 0,
             BlobServiceClient = BlobStorageClient (Client ''linuxkit'' ''c2VjcmV0''),
             ContainerName = defaultStorageContainerName, BlobName = defaultStorageBlobName,
             Parallelism = 8 * NumCPU sample_world, Resume = False,
             MD5Hash_ctx = MD5Hash (FileMetaData sample_metadata)\<rparr>]
   \<and> NumCPU sample_world = 4
   \<and> 0 \<le> sint (NumCPU sample_world) \<and> sint (NumCPU sample_world) < 2 ^ 60
   \<and> EvUpload sample_context
        \<in> set (events (uploadVMImage sample_world ''rg'' ''linuxkit'' ''image.vhd'' sample_globals))
   \<and> Parallelism sample_context = 8 * NumCPU sample_world
   \<and> sint (Parallelism sample_context) = 8 * sint (NumCPU sample_world)
   \<and> 8 * sint (NumCPU sample_world) = 32"
proof -
  note T = parallelism_eight_times_NumCPU
  have handed: "take 13 (events (uploadVMImage sample_world ''rg'' ''linuxkit'' ''image.vhd'' sample_globals)) =
          [EvListKeys (accountsClient sample_globals) ''rg'' ''linuxkit'', EvAbs ''image.vhd'', EvValidateVhd ''/images/image.vhd'', EvValidateVhdSize ''/images/image.vhd'',
           EvCreateNewDiskStream ''/images/image.vhd'', EvNewBasicClient ''linuxkit'' ''c2VjcmV0'',
           EvCreateContainerIfNotExists (BlobStorageClient (Client ''linuxkit'' ''c2VjcmV0'')) defaultStorageContainerName
             ContainerAccessTypePrivate,
           EvNewMetaDataFromLocalVHD ''/images/image.vhd'',
           EvPutPageBlob (BlobStorageClient (Client ''linuxkit'' ''c2VjcmV0'')) defaultStorageContainerName defaultStorageBlobName
             (GetSize sample_stream) None,
           EvSetBlobMetadata (BlobStorageClient (Client ''linuxkit'' ''c2VjcmV0'')) defaultStorageContainerName defaultStorageBlobName
             (fst (ToMap sample_world sample_metadata)) (Some []),
           EvLocateUploadableRanges sample_stream [] 2097152, EvDetectEmptyRanges sample_stream sample_ranges,
           EvUpload \<lparr>VhdStream = sample_stream, UploadableRanges = sample_ranges, AlreadyProcessedBytes = 0,
             BlobServiceClient = BlobStorageClient (Client ''linuxkit'' ''c2VjcmV0''),
             ContainerName = defaultStorageContainerName, BlobName = defaultStorageBlobName,
             Parallelism = 8 * NumCPU sample_world, Resume = False,
             MD5Hash_ctx = MD5Hash (FileMetaData sample_metadata)\<rparr>]"
    by (rule T [THEN conjunct2, rule_format, OF sample_answers])
  have units: "NumCPU sample_world = 4"
    by (simp add: sample_world_def)
  have small: "0 \<le> sint (NumCPU sample_world) \<and> sint (NumCPU sample_world) < 2 ^ 60"
    by (simp add: units)
  have product: "Parallelism sample_context = 8 * NumCPU sample_world
      \<and> (0 \<le> sint (NumCPU sample_world) \<and> sint (NumCPU sample_world) < 2 ^ 60 \<longrightarrow>
          sint (Parallelism sample_context) = 8 * sint (NumCPU sample_world))"
    by (rule T [THEN conjunct1, rule_format, OF sample_upload])
  have thirty_two: "8 * sint (NumCPU sample_world) = 32"
    by (simp add: units)
  show ?thesis
    using handed units small sample_upload product thirty_two by blast
qed

section \<open>A key list without a key\<close>

lemma no_keys_invalid_image_run:
  "uploadVMImage no_keys_invalid_image_world ''rg'' ''linuxkit'' ''image.vhd'' sample_globals =
     ([EvListKeys \<lparr>SubscriptionID = ''sub'', Authorizer = NullAuthorizer\<rparr> ''rg'' ''linuxkit'',
       EvAbs ''image.vhd'', EvValidateVhd ''/images/image.vhd'',
       EvLogFatalf ''Unable to validate VHD: %v'' [''invalid footer'']], sample_globals, Exit 1)"
  by (simp add: upload_defs no_keys_invalid_image_world_def no_keys_world_def sample_world_def
      sample_globals_def)

text \<open>C8, as stated, fails for the empty list of keys: \<open>keys[0]\<close> is only evaluated after
  the path, the validation and the disk stream. When \<open>ListKeys\<close> yields an empty list
  and the image is not valid, the run ends with the fatal error of the validation and
  does not panic.\<close>

theorem empty_keys_invalid_image_counterexample:
  "ListKeys no_keys_invalid_image_world (accountsClient sample_globals) ''rg'' ''linuxkit''
     = Inr \<lparr>Keys = Some []\<rparr>
   \<and> uploadVMImage no_keys_invalid_image_world ''rg'' ''linuxkit'' ''image.vhd'' sample_globals =
     ([EvListKeys \<lparr>SubscriptionID = ''sub'', Authorizer = NullAuthorizer\<rparr> ''rg'' ''linuxkit'',
       EvAbs ''image.vhd'', EvValidateVhd ''/images/image.vhd'',
       EvLogFatalf ''Unable to validate VHD: %v'' [''invalid footer'']], sample_globals, Exit 1)
   \<and> outcome (uploadVMImage no_keys_invalid_image_world ''rg'' ''linuxkit'' ''image.vhd'' sample_globals)
       \<noteq> Panic IndexOutOfRange
   \<and> outcome (uploadVMImage no_keys_invalid_image_world ''rg'' ''linuxkit'' ''image.vhd'' sample_globals)
       \<noteq> Panic NilDereference"
  by (simp add: no_keys_invalid_image_run outcome_def)
     (simp add: no_keys_invalid_image_world_def no_keys_world_def sample_world_def)

text \<open>C8, amended: when \<open>ListKeys\<close> returns no error and a nil \<open>Keys\<close> pointer,
  \<open>uploadVMImage\<close> panics on the nil dereference right after the call; when it returns an
  empty list of keys, \<open>uploadVMImage\<close> panics on \<open>keys[0]\<close> once the path is resolved, the
  image validated and the disk stream opened (the deferred \<open>Close\<close> then runs). In both
  cases the run never returns, makes no call to the blob service and logs no fatal error
  about the storage account key: that message is logged, with exit status 1, when
  \<open>ListKeys\<close> itself returns an error.\<close>

theorem missing_key_panics:
  "(ListKeys w (accountsClient g) rg an = Inr ak \<longrightarrow> Keys ak = None \<longrightarrow>
      uploadVMImage w rg an ip g = ([EvListKeys (accountsClient g) rg an], g, Panic NilDereference))
   \<and> (ListKeys w (accountsClient g) rg an = Inr ak \<longrightarrow> Keys ak = Some [] \<longrightarrow> Abs w ip = Inr p \<longrightarrow>
        ValidateVhd w p = None \<longrightarrow> ValidateVhdSize w p = None \<longrightarrow> CreateNewDiskStream w p = Inr d \<longrightarrow>
      uploadVMImage w rg an ip g =
        ([EvListKeys (accountsClient g) rg an, EvAbs ip, EvValidateVhd p, EvValidateVhdSize p,
          EvCreateNewDiskStream p, EvDiskStreamClose d], g, Panic IndexOutOfRange))
   \<and> (ListKeys w (accountsClient g) rg an = Inr ak \<longrightarrow> Keys ak = None \<or> Keys ak = Some [] \<longrightarrow>
        (\<forall>e \<in> set (events (uploadVMImage w rg an ip g)).
            \<forall>args. e \<noteq> EvLogFatalf ''Unable to retrieve storage account key: %v'' args)
        \<and> (\<forall>e \<in> set (events (uploadVMImage w rg an ip g)). \<not> blob_service_call e)
        \<and> outcome (uploadVMImage w rg an ip g) \<noteq> Ok ())
   \<and> (ListKeys w (accountsClient g) rg an = Inl e \<longrightarrow>
        uploadVMImage w rg an ip g =
          ([EvListKeys (accountsClient g) rg an,
            EvLogFatalf ''Unable to retrieve storage account key: %v'' [e]], g, Exit 1))"
proof (intro conjI)
  show "ListKeys w (accountsClient g) rg an = Inr ak \<longrightarrow> Keys ak = None \<longrightarrow>
      uploadVMImage w rg an ip g = ([EvListKeys (accountsClient g) rg an], g, Panic NilDereference)"
    by (simp add: upload_defs)
  show "ListKeys w (accountsClient g) rg an = Inr ak \<longrightarrow> Keys ak = Some [] \<longrightarrow> Abs w ip = Inr p \<longrightarrow>
        ValidateVhd w p = None \<longrightarrow> ValidateVhdSize w p = None \<longrightarrow> CreateNewDiskStream w p = Inr d \<longrightarrow>
      uploadVMImage w rg an ip g =
        ([EvListKeys (accountsClient g) rg an, EvAbs ip, EvValidateVhd p, EvValidateVhdSize p,
          EvCreateNewDiskStream p, EvDiskStreamClose d], g, Panic IndexOutOfRange)"
    by (simp add: upload_defs)
  show "ListKeys w (accountsClient g) rg an = Inr ak \<longrightarrow> Keys ak = None \<or> Keys ak = Some [] \<longrightarrow>
        (\<forall>e \<in> set (events (uploadVMImage w rg an ip g)).
            \<forall>args. e \<noteq> EvLogFatalf ''Unable to retrieve storage account key: %v'' args)
        \<and> (\<forall>e \<in> set (events (uploadVMImage w rg an ip g)). \<not> blob_service_call e)
        \<and> outcome (uploadVMImage w rg an ip g) \<noteq> Ok ()"
    by (auto simp add: upload_defs events_def outcome_def split: run_splits)
  show "ListKeys w (accountsClient g) rg an = Inl e \<longrightarrow>
        uploadVMImage w rg an ip g =
          ([EvListKeys (accountsClient g) rg an,
            EvLogFatalf ''Unable to retrieve storage account key: %v'' [e]], g, Exit 1)"
    by (simp add: upload_defs)
qed

theorem missing_key_panics_witness:
  "ListKeys nil_keys_world (accountsClient sample_globals) ''rg'' ''linuxkit'' = Inr \<lparr>Keys = None\<rparr>
   \<and> uploadVMImage nil_keys_world ''rg'' ''linuxkit'' ''image.vhd'' sample_globals =
       ([EvListKeys (accountsClient sample_globals) ''rg'' ''linuxkit''], sample_globals,
        Panic NilDereference)
   \<and> ListKeys no_keys_world (accountsClient sample_globals) ''rg'' ''linuxkit'' = Inr \<lparr>Keys = Some []\<rparr>
   \<and> uploadVMImage no_keys_world ''rg'' ''linuxkit'' ''image.vhd'' sample_globals =
       ([EvListKeys (accountsClient sample_globals) ''rg'' ''linuxkit'', EvAbs ''image.vhd'',
         EvValidateVhd ''/images/image.vhd'', EvValidateVhdSize ''/images/image.vhd'',
         EvCreateNewDiskStream ''/images/image.vhd'', EvDiskStreamClose sample_stream],
        sample_globals, Panic IndexOutOfRange)
   \<and> ListKeys (sample_world\<lparr>ListKeys := \<lambda>c r a. Inl ''403 Forbidden''\<rparr>)
        (accountsClient sample_globals) ''rg'' ''linuxkit'' = Inl ''403 Forbidden''
   \<and> uploadVMImage (sample_world\<lparr>ListKeys := \<lambda>c r a. Inl ''403 Forbidden''\<rparr>)
        ''rg'' ''linuxkit'' ''image.vhd'' sample_globals =
       ([EvListKeys (accountsClient sample_globals) ''rg'' ''linuxkit'',
         EvLogFatalf ''Unable to retrieve storage account key: %v'' [''403 Forbidden'']],
        sample_globals, Exit 1)"
proof -
  note T = missing_key_panics
  have nil_keys: "ListKeys nil_keys_world (accountsClient sample_globals) ''rg'' ''linuxkit''
      = Inr \<lparr>Keys = None\<rparr>"
    by (simp add: nil_keys_world_def)
  have nil_run: "uploadVMImage nil_keys_world ''rg'' ''linuxkit'' ''image.vhd'' sample_globals =
       ([EvListKeys (accountsClient sample_globals) ''rg'' ''linuxkit''], sample_globals,
        Panic NilDereference)"
    by (rule T [THEN conjunct1, rule_format, OF nil_keys]) simp
  have no_keys: "ListKeys no_keys_world (accountsClient sample_globals) ''rg'' ''linuxkit''
      = Inr \<lparr>Keys = Some []\<rparr>"
    by (simp add: no_keys_world_def)
  have path: "Abs no_keys_world ''image.vhd'' = Inr ''/images/image.vhd''"
    and valid: "ValidateVhd no_keys_world ''/images/image.vhd'' = None"
    and size_ok: "ValidateVhdSize no_keys_world ''/images/image.vhd'' = None"
    and opened: "CreateNewDiskStream no_keys_world ''/images/image.vhd'' = Inr sample_stream"
    by (simp_all add: no_keys_world_def sample_world_def)
  have no_keys_run: "uploadVMImage no_keys_world ''rg'' ''linuxkit'' ''image.vhd'' sample_globals =
       ([EvListKeys (accountsClient sample_globals) ''rg'' ''linuxkit'', EvAbs ''image.vhd'',
         EvValidateVhd ''/images/image.vhd'', EvValidateVhdSize ''/images/image.vhd'',
         EvCreateNewDiskStream ''/images/image.vhd'', EvDiskStreamClose sample_stream],
        sample_globals, Panic IndexOutOfRange)"
    by (rule T [THEN conjunct2, THEN conjunct1, rule_format, OF no_keys _ path valid size_ok opened])
       simp
  have refused: "ListKeys (sample_world\<lparr>ListKeys := \<lambda>c r a. Inl ''403 Forbidden''\<rparr>)
        (accountsClient sample_globals) ''rg'' ''linuxkit'' = Inl ''403 Forbidden''"
    by simp
  have refused_run: "uploadVMImage (sample_world\<lparr>ListKeys := \<lambda>c r a. Inl ''403 Forbidden''\<rparr>)
        ''rg'' ''linuxkit'' ''image.vhd'' sample_globals =
       ([EvListKeys (accountsClient sample_globals) ''rg'' ''linuxkit'',
         EvLogFatalf ''Unable to retrieve storage account key: %v'' [''403 Forbidden'']],
        sample_globals, Exit 1)"
    by (rule T [THEN conjunct2, THEN conjunct2, THEN conjunct2, rule_format, OF refused])
  show ?thesis
    by (intro conjI) (fact nil_keys nil_run no_keys no_keys_run refused refused_run)+
qed

section \<open>The error of the metadata map\<close>

text \<open>C9: the error returned by \<open>ToMap\<close> is discarded: the run of \<open>uploadVMImage\<close> is the
  same whatever error \<open>ToMap\<close> returns beside its map, and whenever the page blob was
  allocated the map that \<open>ToMap\<close> returned is written with \<open>SetBlobMetadata\<close>, whether the
  conversion failed or not.\<close>

theorem ToMap_error_discarded:
  "uploadVMImage (w\<lparr>ToMap := \<lambda>md. (fst (ToMap w md), err md)\<rparr>) rg an ip g = uploadVMImage w rg an ip g
   \<and> (\<forall>c sz. EvPutPageBlob c defaultStorageContainerName defaultStorageBlobName sz None
                 \<in> set (events (uploadVMImage w rg an ip g))
               \<and> PutPageBlob w c defaultStorageContainerName defaultStorageBlobName sz None = None \<longrightarrow>
         (\<exists>p md. Abs w ip = Inr p \<and> NewMetaDataFromLocalVHD w p = Inr md
            \<and> EvSetBlobMetadata c defaultStorageContainerName defaultStorageBlobName
                 (fst (ToMap w md)) (Some []) \<in> set (events (uploadVMImage w rg an ip g))))"
proof (intro conjI)
  show "uploadVMImage (w\<lparr>ToMap := \<lambda>md. (fst (ToMap w md), err md)\<rparr>) rg an ip g
        = uploadVMImage w rg an ip g"
    by (simp add: upload_defs split: run_splits)
  show "\<forall>c sz. EvPutPageBlob c defaultStorageContainerName defaultStorageBlobName sz None
                 \<in> set (events (uploadVMImage w rg an ip g))
               \<and> PutPageBlob w c defaultStorageContainerName defaultStorageBlobName sz None = None \<longrightarrow>
         (\<exists>p md. Abs w ip = Inr p \<and> NewMetaDataFromLocalVHD w p = Inr md
            \<and> EvSetBlobMetadata c defaultStorageContainerName defaultStorageBlobName
                 (fst (ToMap w md)) (Some []) \<in> set (events (uploadVMImage w rg an ip g)))"
    by (simp add: upload_defs events_def split: run_splits)
qed

theorem ToMap_error_discarded_witness:
  "ToMap failing_ToMap_world sample_metadata = (None, Some ''json: unsupported value'')
   \<and> uploadVMImage failing_ToMap_world ''rg'' ''linuxkit'' ''image.vhd'' sample_globals
       = uploadVMImage (sample_world\<lparr>ToMap := \<lambda>m. (None, None)\<rparr>) ''rg'' ''linuxkit'' ''image.vhd''
           sample_globals
   \<and> EvPutPageBlob sample_client defaultStorageContainerName defaultStorageBlobName 10485760 None
       \<in> set (events (uploadVMImage failing_ToMap_world ''rg'' ''linuxkit'' ''image.vhd'' sample_globals))
   \<and> PutPageBlob failing_ToMap_world sample_client defaultStorageContainerName defaultStorageBlobName
        10485760 None = None
   \<and> (\<exists>p md. Abs failing_ToMap_world ''image.vhd'' = Inr p
         \<and> NewMetaDataFromLocalVHD failing_ToMap_world p = Inr md
         \<and> EvSetBlobMetadata sample_client defaultStorageContainerName defaultStorageBlobName
              (fst (ToMap failing_ToMap_world md)) (Some [])
            \<in> set (events (uploadVMImage failing_ToMap_world ''rg'' ''linuxkit'' ''image.vhd''
                 sample_globals)))
   \<and> events (uploadVMImage failing_ToMap_world ''rg'' ''linuxkit'' ''image.vhd'' sample_globals) ! 9
       = EvSetBlobMetadata sample_client defaultStorageContainerName defaultStorageBlobName
           None (Some [])
   \<and> outcome (uploadVMImage failing_ToMap_world ''rg'' ''linuxkit'' ''image.vhd'' sample_globals)
       = Ok ()"
proof -
  note T = ToMap_error_discarded
  have fails: "ToMap failing_ToMap_world sample_metadata = (None, Some ''json: unsupported value'')"
    by (simp add: failing_ToMap_world_def)
  have same: "uploadVMImage failing_ToMap_world ''rg'' ''linuxkit'' ''image.vhd'' sample_globals
       = uploadVMImage (sample_world\<lparr>ToMap := \<lambda>m. (None, None)\<rparr>) ''rg'' ''linuxkit'' ''image.vhd''
           sample_globals"
    using T [where w = "sample_world\<lparr>ToMap := \<lambda>m. (None, None)\<rparr>"
        and err = "\<lambda>md. Some ''json: unsupported value''", THEN conjunct1]
    by (simp add: failing_ToMap_world_def)
  have allocated: "EvPutPageBlob sample_client defaultStorageContainerName defaultStorageBlobName
        10485760 None
       \<in> set (events (uploadVMImage failing_ToMap_world ''rg'' ''linuxkit'' ''image.vhd'' sample_globals))"
    by (simp add: failing_ToMap_run events_def sample_run_def defaultStorageContainerName_def
        defaultStorageBlobName_def)
  have alloc_ok: "PutPageBlob failing_ToMap_world sample_client defaultStorageContainerName
        defaultStorageBlobName 10485760 None = None"
    by (simp add: failing_ToMap_world_def sample_world_def)
  have written: "\<exists>p md. Abs failing_ToMap_world ''image.vhd'' = Inr p
         \<and> NewMetaDataFromLocalVHD failing_ToMap_world p = Inr md
         \<and> EvSetBlobMetadata sample_client defaultStorageContainerName defaultStorageBlobName
              (fst (ToMap failing_ToMap_world md)) (Some [])
            \<in> set (events (uploadVMImage failing_ToMap_world ''rg'' ''linuxkit'' ''image.vhd''
                 sample_globals))"
    using T [where w = failing_ToMap_world and rg = "''rg''" and an = "''linuxkit''"
        and ip = "''image.vhd''" and g = sample_globals, THEN conjunct2] allocated alloc_ok
    by blast
  have nil_map: "events (uploadVMImage failing_ToMap_world ''rg'' ''linuxkit'' ''image.vhd'' sample_globals) ! 9
       = EvSetBlobMetadata sample_client defaultStorageContainerName defaultStorageBlobName
           None (Some [])"
    by (simp add: failing_ToMap_run events_def sample_run_def)
  have returns: "outcome (uploadVMImage failing_ToMap_world ''rg'' ''linuxkit'' ''image.vhd'' sample_globals)
       = Ok ()"
    by (simp add: failing_ToMap_run outcome_def)
  show ?thesis
    by (intro conjI) (fact fails same allocated alloc_ok written nil_map returns)+
qed

section \<open>Every upload is a fresh upload\<close>

text \<open>C10: in every run of \<open>uploadVMImage\<close> the ranges to skip handed to
  \<open>LocateUploadableRanges\<close> are nil (with the page size of 2 MiB), and the context handed
  to \<open>upload.Upload\<close> has \<open>Resume = false\<close> and
  \<open>AlreadyProcessedBytes = TotalRangeLength(nil) = 0\<close>.\<close>

theorem always_fresh_upload:
  "(\<forall>e \<in> set (events (uploadVMImage w rg an ip g)). is_LocateUploadableRanges e \<longrightarrow>
      (\<exists>d. e = EvLocateUploadableRanges d [] 2097152))
   \<and> (\<forall>ctx. EvUpload ctx \<in> set (events (uploadVMImage w rg an ip g)) \<longrightarrow>
        \<not> Resume ctx
        \<and> AlreadyProcessedBytes ctx = TotalRangeLength []
        \<and> AlreadyProcessedBytes ctx = 0
        \<and> EvLocateUploadableRanges (VhdStream ctx) [] 2097152
             \<in> set (events (uploadVMImage w rg an ip g)))"
proof (intro conjI)
  show "\<forall>e \<in> set (events (uploadVMImage w rg an ip g)). is_LocateUploadableRanges e \<longrightarrow>
      (\<exists>d. e = EvLocateUploadableRanges d [] 2097152)"
    by (simp add: upload_defs events_def split: run_splits)
  show "\<forall>ctx. EvUpload ctx \<in> set (events (uploadVMImage w rg an ip g)) \<longrightarrow>
        \<not> Resume ctx
        \<and> AlreadyProcessedBytes ctx = TotalRangeLength []
        \<and> AlreadyProcessedBytes ctx = 0
        \<and> EvLocateUploadableRanges (VhdStream ctx) [] 2097152
             \<in> set (events (uploadVMImage w rg an ip g))"
    by (simp add: upload_defs events_def TotalRangeLength_def split: run_splits)
qed

theorem always_fresh_upload_witness:
  "EvUpload sample_context \<in> set (events (uploadVMImage sample_world ''rg'' ''linuxkit'' ''image.vhd'' sample_globals))
   \<and> events (uploadVMImage sample_world ''rg'' ''linuxkit'' ''image.vhd'' sample_globals) ! 10
       = EvLocateUploadableRanges sample_stream [] 2097152
   \<and> \<not> Resume sample_context
   \<and> AlreadyProcessedBytes sample_context = 0
   \<and> TotalRangeLength [] = 0"
  using always_fresh_upload [of sample_world "''rg''" "''linuxkit''" "''image.vhd''" sample_globals]
  by (simp add: sample_run_eq events_def sample_run_def) (simp add: sample_context_def TotalRangeLength_def)

end
